theory Spec2Isabelle
  imports Complex_Main "HOL-Library.AList"
begin

section \<open>Values, errors and the document store\<close>

text \<open>
  The application is JavaScript on top of a remote document store. Numbers that stand
  for money are modelled as exact rationals (\<open>rat\<close>), stock levels and quantities as
  integers (\<open>int\<close>); the binary floating point of the JavaScript runtime is not
  modelled. Server timestamps, free-text descriptions and rendered HTML are left out
  of the documents; every field a guard or a computation reads is kept.

  Every \<^verbatim>\<open>throw new Error(msg)\<close> of the source is a constructor of \<open>error\<close>, named
  after its message. \<open>TypeError\<close> is what the runtime raises when a property is read
  from \<^verbatim>\<open>null\<close> or \<^verbatim>\<open>undefined\<close>, or when something that is not a function
  is called; \<open>DocumentMissing\<close> is the store rejecting an update of a document that
  does not exist.
\<close>

datatype error =
    UserNotAuthenticated
  | DocumentMissing
  | MissingRequiredField string
  | ProductNotFound
  | InsufficientStock
  | TransferRequiresToAccountId
  | AccountNotFound
  | CustomerNotFound
  | CreditLimitExceeded
  | CartIsEmpty
  | CustomerRequiredForCredit
  | UnsupportedPaymentMethod string
  | PaymentFailed
  | InsufficientStockAvailable int
  | TypeError

text \<open>
  The error classes of the specification: a missing or invalid input field is a
  validation error, an absent entity a not-found error.
\<close>

fun isValidationError :: "error \<Rightarrow> bool" where
  "isValidationError (MissingRequiredField f) = True"
| "isValidationError TransferRequiresToAccountId = True"
| "isValidationError e = False"

text \<open>
  A collection that is read and updated by id (\<open>accounts\<close>, \<open>products\<close>,
  \<open>customers\<close>) is an association list from document id to document, in the order
  the store lists it. A collection that is only appended to (\<open>transactions\<close>,
  \<open>inventory_logs\<close>, \<open>credit_transactions\<close>, \<open>audit_logs\<close>, \<open>sales\<close>,
  \<open>receipts\<close>) is the list of its documents in creation order; the id the store
  assigns to a new document is modelled as its position in that list.
\<close>

type_synonym 'a collection = "(string \<times> 'a) list"

record 'a doc =
  userId :: string
  content :: 'a

record account =
  accountName :: string
  balance :: rat
  isDefault :: bool

record product =
  productName :: string
  sku :: string
  price :: rat
  cost :: rat
  stock :: int
  reorderLevel :: int
  lowStock :: bool
  unit :: string

record customer =
  customerName :: string
  outstandingBalance :: rat
  creditLimit :: rat
  creditUsed :: rat
  totalPurchases :: int
  totalSpent :: rat
  hasFirstPurchase :: bool

text \<open>
  The argument of \<^verbatim>\<open>recordTransaction\<close> is an object whose fields may be absent
  (\<open>None\<close>). The stored transaction carries the validated fields.
\<close>

record transactionData =
  txType :: "string option"
  amount :: "rat option"
  accountId :: "string option"
  category :: "string option"
  toAccountId :: "string option"
  txNotes :: "string option"

record transaction =
  t_type :: string
  t_amount :: rat
  t_accountId :: string
  t_category :: string
  t_toAccountId :: "string option"
  t_status :: string
  t_reconciled :: bool
  t_notes :: string

record inventoryLog =
  il_productId :: string
  il_productName :: string
  il_quantityChange :: int
  il_previousStock :: int
  il_newStock :: int
  il_reason :: string
  il_reference :: "string option"

record creditTransaction =
  ct_customerId :: string
  ct_amount :: rat
  ct_type :: string
  ct_previousBalance :: rat
  ct_newBalance :: rat

record auditEntry =
  entity :: string
  entityId :: nat
  action :: string

text \<open>The cart of the point of sale, its summary, and what a checkout writes.\<close>

record cartItem =
  ci_productId :: string
  ci_name :: string
  ci_sku :: string
  ci_price :: rat
  ci_cost :: rat
  ci_quantity :: int
  ci_total :: rat
  ci_taxAmount :: rat
  ci_stock :: int
  ci_unit :: string

record summary =
  subtotal :: rat
  tax :: rat
  discount :: rat
  total :: rat
  itemCount :: int

record paymentData =
  pd_method :: string
  pd_reference :: "string option"
  pd_cashTendered :: "rat option"

record payment =
  p_amount :: rat
  p_method :: string
  p_reference :: "string option"
  p_status :: string
  p_cashTendered :: "rat option"
  p_change :: "rat option"
  p_success :: bool

record saleItem =
  si_productId :: string
  si_name :: string
  si_sku :: string
  si_quantity :: int
  si_price :: rat
  si_total :: rat
  si_cost :: rat

record sale =
  s_items :: "saleItem list"
  s_customerId :: "string option"
  s_customerName :: string
  s_subtotal :: rat
  s_tax :: rat
  s_discount :: rat
  s_total :: rat
  s_paymentMethod :: string
  s_paymentReference :: "string option"
  s_status :: string
  s_employeeId :: string

record purchase =
  pu_amount :: rat
  pu_items :: nat
  pu_paymentMethod :: string
  pu_saleId :: "string option"
  pu_customerId :: string
  pu_status :: string

datatype saleDoc = SaleRecord sale | PurchaseRecord purchase

record customerRef =
  cr_id :: string
  cr_name :: string

record receipt =
  r_saleId :: nat
  r_items :: "cartItem list"
  r_summary :: summary
  r_payment :: payment
  r_customer :: "customerRef option"

text \<open>
  \<open>masterUser\<close> is \<^verbatim>\<open>firebase.auth(authManager.masterApp).currentUser\<close> and
  \<open>defaultUser\<close> is \<^verbatim>\<open>firebase.auth().currentUser\<close>, each reduced to the uid of
  the signed-in user, \<open>None\<close> when nobody is signed in.
\<close>

record store =
  masterUser :: "string option"
  defaultUser :: "string option"
  accounts :: "account collection"
  products :: "product collection"
  customers :: "customer collection"
  transactions :: "transaction doc list"
  inventory_logs :: "inventoryLog doc list"
  credit_transactions :: "creditTransaction doc list"
  audit_logs :: "auditEntry doc list"
  sales :: "saleDoc doc list"
  receipts :: "receipt doc list"

text \<open>
  An operation takes the store and returns its outcome together with the store it
  leaves behind. The store is returned on failure too: what was written before an
  exception stays written.
\<close>

type_synonym 'a op = "store \<Rightarrow> (error + 'a) \<times> store"

subsection \<open>Generic document operations (FirestoreManager)\<close>

definition getDocument :: "'a collection \<Rightarrow> string \<Rightarrow> 'a option" where
  "getDocument c i = map_of c i"

definition updateDocument ::
  "string option \<Rightarrow> 'a collection \<Rightarrow> string \<Rightarrow> ('a \<Rightarrow> 'a) \<Rightarrow> error + 'a collection" where
  "updateDocument user c i patch =
     (case user of
        None \<Rightarrow> Inl UserNotAuthenticated
      | Some u \<Rightarrow>
          (case map_of c i of
             None \<Rightarrow> Inl DocumentMissing
           | Some d \<Rightarrow> Inr (AList.update i (patch d) c)))"

definition addDocument ::
  "string option \<Rightarrow> 'a doc list \<Rightarrow> 'a \<Rightarrow> error + (nat \<times> 'a doc) \<times> 'a doc list" where
  "addDocument user c d =
     (case user of
        None \<Rightarrow> Inl UserNotAuthenticated
      | Some u \<Rightarrow>
          (let docData = \<lparr>userId = u, content = d\<rparr>
           in Inr ((length c, docData), c @ [docData])))"

definition auditLog :: "string \<Rightarrow> nat \<Rightarrow> string \<Rightarrow> (nat \<times> auditEntry doc) op" where
  "auditLog ent eid act s =
     (case masterUser s of
        None \<Rightarrow> (Inl TypeError, s)
      | Some u \<Rightarrow>
          (case addDocument (masterUser s) (audit_logs s)
                  \<lparr>entity = ent, entityId = eid, action = act\<rparr> of
             Inl e \<Rightarrow> (Inl e, s)
           | Inr (r, c) \<Rightarrow> (Inr r, s\<lparr>audit_logs := c\<rparr>)))"

section \<open>Financial operations (FirestoreManager)\<close>

definition updateAccountBalance :: "string \<Rightarrow> rat \<Rightarrow> rat op" where
  "updateAccountBalance accId amountChange s =
     (case getDocument (accounts s) accId of
        None \<Rightarrow> (Inl AccountNotFound, s)
      | Some account \<Rightarrow>
          (let newBalance = balance account + amountChange
           in case updateDocument (masterUser s) (accounts s) accId
                     (\<lambda>a. a\<lparr>balance := newBalance\<rparr>) of
                Inl e \<Rightarrow> (Inl e, s)
              | Inr c \<Rightarrow> (Inr newBalance, s\<lparr>accounts := c\<rparr>)))"

text \<open>
  \<^verbatim>\<open>if (!transactionData[field]) throw ...\<close>: a field is rejected when it is absent
  or falsy, that is the empty string for a text field and \<open>0\<close> for a number.
\<close>

definition requireText :: "string \<Rightarrow> string option \<Rightarrow> error + string" where
  "requireText field v =
     (case v of
        None \<Rightarrow> Inl (MissingRequiredField field)
      | Some x \<Rightarrow> if x = [] then Inl (MissingRequiredField field) else Inr x)"

definition requireNumber :: "string \<Rightarrow> rat option \<Rightarrow> error + rat" where
  "requireNumber field v =
     (case v of
        None \<Rightarrow> Inl (MissingRequiredField field)
      | Some x \<Rightarrow> if x = 0 then Inl (MissingRequiredField field) else Inr x)"

text \<open>\<^verbatim>\<open>transactionData.notes || ''\<close>\<close>

definition orEmpty :: "string option \<Rightarrow> string" where
  "orEmpty v = (case v of None \<Rightarrow> [] | Some x \<Rightarrow> x)"

text \<open>
  The balance updates of \<^verbatim>\<open>recordTransaction\<close>: one for income and expense, two
  in sequence for a transfer, none for any other type.
\<close>

definition applyBalances :: "string \<Rightarrow> rat \<Rightarrow> string \<Rightarrow> string option \<Rightarrow> unit op" where
  "applyBalances ty am acc toAcc s =
     (if ty = ''income'' then
        (case updateAccountBalance acc am s of
           (Inl e, s1) \<Rightarrow> (Inl e, s1)
         | (Inr b, s1) \<Rightarrow> (Inr (), s1))
      else if ty = ''expense'' then
        (case updateAccountBalance acc (- am) s of
           (Inl e, s1) \<Rightarrow> (Inl e, s1)
         | (Inr b, s1) \<Rightarrow> (Inr (), s1))
      else if ty = ''transfer'' then
        (case requireText ''toAccountId'' toAcc of
           Inl e \<Rightarrow> (Inl TransferRequiresToAccountId, s)
         | Inr toId \<Rightarrow>
             (case updateAccountBalance acc (- am) s of
                (Inl e, s1) \<Rightarrow> (Inl e, s1)
              | (Inr b, s1) \<Rightarrow>
                  (case updateAccountBalance toId am s1 of
                     (Inl e, s2) \<Rightarrow> (Inl e, s2)
                   | (Inr b', s2) \<Rightarrow> (Inr (), s2))))
      else (Inr (), s))"

definition recordTransaction :: "transactionData \<Rightarrow> (nat \<times> transaction doc) op" where
  "recordTransaction td s =
     (case requireText ''type'' (txType td) of
        Inl e \<Rightarrow> (Inl e, s)
      | Inr ty \<Rightarrow>
     (case requireNumber ''amount'' (amount td) of
        Inl e \<Rightarrow> (Inl e, s)
      | Inr am \<Rightarrow>
     (case requireText ''accountId'' (accountId td) of
        Inl e \<Rightarrow> (Inl e, s)
      | Inr acc \<Rightarrow>
     (case requireText ''category'' (category td) of
        Inl e \<Rightarrow> (Inl e, s)
      | Inr cat \<Rightarrow>
     (let trans = \<lparr>t_type = ty, t_amount = am, t_accountId = acc, t_category = cat,
                   t_toAccountId = toAccountId td, t_status = ''completed'',
                   t_reconciled = False, t_notes = orEmpty (txNotes td)\<rparr>
      in case applyBalances ty am acc (toAccountId td) s of
           (Inl e, s1) \<Rightarrow> (Inl e, s1)
         | (Inr u, s1) \<Rightarrow>
             (case addDocument (masterUser s1) (transactions s1) trans of
                Inl e \<Rightarrow> (Inl e, s1)
              | Inr (result, c) \<Rightarrow>
                  (let s2 = s1\<lparr>transactions := c\<rparr>
                   in case auditLog ''transaction'' (fst result) ''create'' s2 of
                        (Inl e, s3) \<Rightarrow> (Inl e, s3)
                      | (Inr a, s3) \<Rightarrow> (Inr result, s3))))))))"

section \<open>Stock adjustment (FirestoreManager)\<close>

text \<open>
  The log entry is built after the product was written; reading the uid of the
  signed-in user for it raises a \<open>TypeError\<close> when nobody is signed in.
\<close>

definition updateStock :: "string \<Rightarrow> int \<Rightarrow> string \<Rightarrow> string option \<Rightarrow> int op" where
  "updateStock productId quantityChange reason reference s =
     (case getDocument (products s) productId of
        None \<Rightarrow> (Inl ProductNotFound, s)
      | Some product \<Rightarrow>
          (let newStock = stock product + quantityChange
           in if newStock < 0 then (Inl InsufficientStock, s)
              else
                (case updateDocument (masterUser s) (products s) productId
                        (\<lambda>p. p\<lparr>stock := newStock,
                                lowStock := (newStock \<le> reorderLevel product)\<rparr>) of
                   Inl e \<Rightarrow> (Inl e, s)
                 | Inr c \<Rightarrow>
                     (let s1 = s\<lparr>products := c\<rparr>
                      in case masterUser s1 of
                           None \<Rightarrow> (Inl TypeError, s1)
                         | Some u \<Rightarrow>
                             (case addDocument (masterUser s1) (inventory_logs s1)
                                     \<lparr>il_productId = productId,
                                      il_productName = productName product,
                                      il_quantityChange = quantityChange,
                                      il_previousStock = stock product,
                                      il_newStock = newStock,
                                      il_reason = reason,
                                      il_reference = reference\<rparr> of
                                Inl e \<Rightarrow> (Inl e, s1)
                              | Inr (r, l) \<Rightarrow>
                                  (Inr newStock, s1\<lparr>inventory_logs := l\<rparr>))))))"

section \<open>Customer credit (CRMManager)\<close>

text \<open>The new outstanding balance, by adjustment type; any other type leaves it as it is.\<close>

definition adjustedBalance :: "rat \<Rightarrow> rat \<Rightarrow> string \<Rightarrow> rat" where
  "adjustedBalance old amt ty =
     (if ty = ''increase'' then old + amt
      else if ty = ''decrease'' then (if old - amt < 0 then 0 else old - amt)
      else if ty = ''payment'' then (if old - amt < 0 then 0 else old - amt)
      else old)"

definition updateCustomerCredit :: "string \<Rightarrow> rat \<Rightarrow> string \<Rightarrow> rat op" where
  "updateCustomerCredit customerId amt ty s =
     (case getDocument (customers s) customerId of
        None \<Rightarrow> (Inl CustomerNotFound, s)
      | Some cust \<Rightarrow>
          (let newBalance = adjustedBalance (outstandingBalance cust) amt ty
           in if newBalance > creditLimit cust \<and> creditLimit cust > 0
              then (Inl CreditLimitExceeded, s)
              else
                (case updateDocument (masterUser s) (customers s) customerId
                        (\<lambda>c. c\<lparr>outstandingBalance := newBalance,
                                creditUsed := newBalance\<rparr>) of
                   Inl e \<Rightarrow> (Inl e, s)
                 | Inr c \<Rightarrow>
                     (let s1 = s\<lparr>customers := c\<rparr>
                      in case defaultUser s1 of
                           None \<Rightarrow> (Inl TypeError, s1)
                         | Some u \<Rightarrow>
                             (case addDocument (masterUser s1) (credit_transactions s1)
                                     \<lparr>ct_customerId = customerId,
                                      ct_amount = amt,
                                      ct_type = ty,
                                      ct_previousBalance = outstandingBalance cust,
                                      ct_newBalance = newBalance\<rparr> of
                                Inl e \<Rightarrow> (Inl e, s1)
                              | Inr (r, l) \<Rightarrow>
                                  (Inr newBalance, s1\<lparr>credit_transactions := l\<rparr>))))))"

section \<open>Profit and loss (FinanceManager)\<close>

record pnl =
  revenue :: rat
  cogs :: rat
  grossProfit :: rat
  operatingExpenses :: rat
  netProfit :: rat
  detailsRevenue :: "string \<rightharpoonup> rat"
  detailsExpenses :: "string \<rightharpoonup> rat"

text \<open>
  \<^verbatim>\<open>if (!d[c]) d[c] = 0; d[c] += amount\<close> on an object used as a dictionary.
\<close>

definition addTo :: "(string \<rightharpoonup> rat) \<Rightarrow> string \<Rightarrow> rat \<Rightarrow> (string \<rightharpoonup> rat)" where
  "addTo d c x = d(c \<mapsto> (case d c of None \<Rightarrow> 0 | Some v \<Rightarrow> v) + x)"

text \<open>The body of the \<^verbatim>\<open>forEach\<close> of \<^verbatim>\<open>getProfitAndLoss\<close>.\<close>

definition pnlStep :: "pnl \<Rightarrow> transaction \<Rightarrow> pnl" where
  "pnlStep p t =
     (if t_type t = ''income'' then
        (let p1 = p\<lparr>revenue := revenue p + t_amount t,
                     detailsRevenue := addTo (detailsRevenue p) (t_category t) (t_amount t)\<rparr>
         in if t_category t = ''Cost of Goods''
            then p1\<lparr>cogs := cogs p1 + t_amount t\<rparr>
            else p1)
      else if t_type t = ''expense'' then
        p\<lparr>operatingExpenses := operatingExpenses p + t_amount t,
          detailsExpenses := addTo (detailsExpenses p) (t_category t) (t_amount t)\<rparr>
      else p)"

text \<open>
  \<^verbatim>\<open>getProfitAndLoss\<close> on the transactions its query returned, in the order
  returned.
\<close>

definition getProfitAndLoss :: "transaction list \<Rightarrow> pnl" where
  "getProfitAndLoss ts =
     (let p0 = \<lparr>revenue = 0, cogs = 0, grossProfit = 0, operatingExpenses = 0,
                 netProfit = 0, detailsRevenue = Map.empty, detailsExpenses = Map.empty\<rparr>;
          p1 = foldl pnlStep p0 ts;
          p2 = p1\<lparr>grossProfit := revenue p1 - cogs p1\<rparr>
      in p2\<lparr>netProfit := grossProfit p2 - operatingExpenses p2\<rparr>)"

section \<open>Point of sale (POSManager)\<close>

subsection \<open>Tax\<close>

text \<open>
  \<^verbatim>\<open>parseFloat(x.toFixed(2))\<close>: the nearest multiple of one hundredth, the one
  of larger magnitude when two are equally near.
\<close>

definition toFixed2 :: "rat \<Rightarrow> rat" where
  "toFixed2 x =
     (if x < 0 then - (of_int (round (- x * 100)) / 100)
      else of_int (round (x * 100)) / 100)"

record taxResult =
  netAmount :: rat
  taxAmount :: rat
  grossAmount :: rat

definition exclusiveTax :: "rat \<Rightarrow> rat \<Rightarrow> taxResult" where
  "exclusiveTax amt rate =
     (let taxAmt = amt * (rate / 100);
          gross = amt + taxAmt
      in \<lparr>netAmount = toFixed2 amt, taxAmount = toFixed2 taxAmt,
          grossAmount = toFixed2 gross\<rparr>)"

text \<open>
  The inclusive branch divides by \<open>1 + rate / 100\<close>. At \<open>rate = -100\<close> the source
  divides by zero and returns numbers that are not finite; the model returns \<open>None\<close>
  there.
\<close>

definition inclusiveTax :: "rat \<Rightarrow> rat \<Rightarrow> taxResult option" where
  "inclusiveTax amt rate =
     (if 1 + rate / 100 = 0 then None
      else
        (let taxAmt = amt - (amt / (1 + rate / 100));
             net = amt - taxAmt
         in Some \<lparr>netAmount = toFixed2 net, taxAmount = toFixed2 taxAmt,
                  grossAmount = toFixed2 amt\<rparr>))"

definition calculateTax :: "rat \<Rightarrow> rat \<Rightarrow> bool \<Rightarrow> taxResult option" where
  "calculateTax amt rate isInclusive =
     (if isInclusive then inclusiveTax amt rate else Some (exclusiveTax amt rate))"

subsection \<open>Cart\<close>

record pos =
  cart :: "cartItem list"
  currentCustomer :: "customerRef option"
  taxRate :: rat

text \<open>
  \<^verbatim>\<open>existingItem.quantity += quantity; existingItem.total = ...\<close> on the first
  line of the cart with that product.
\<close>

fun bumpExisting :: "string \<Rightarrow> int \<Rightarrow> cartItem list \<Rightarrow> cartItem list" where
  "bumpExisting pid q [] = []"
| "bumpExisting pid q (i # rest) =
     (if ci_productId i = pid
      then (let n = ci_quantity i + q
            in i\<lparr>ci_quantity := n, ci_total := of_int n * ci_price i\<rparr>) # rest
      else i # bumpExisting pid q rest)"

text \<open>
  \<^verbatim>\<open>addToCart\<close> calls \<^verbatim>\<open>calculateTax(price * quantity, taxRate, false)\<close>, which
  is \<open>exclusiveTax\<close>. It reads the store and changes the cart only.
\<close>

definition addToCart :: "string \<Rightarrow> int \<Rightarrow> pos \<Rightarrow> store \<Rightarrow> (error + cartItem list) \<times> pos" where
  "addToCart productId quantity p s =
     (case getDocument (products s) productId of
        None \<Rightarrow> (Inl ProductNotFound, p)
      | Some product \<Rightarrow>
          if stock product < quantity
          then (Inl (InsufficientStockAvailable (stock product)), p)
          else
            (let newCart =
               (case find (\<lambda>i. ci_productId i = productId) (cart p) of
                  Some existingItem \<Rightarrow> bumpExisting productId quantity (cart p)
                | None \<Rightarrow>
                    cart p @
                    [\<lparr>ci_productId = productId,
                      ci_name = productName product,
                      ci_sku = sku product,
                      ci_price = price product,
                      ci_cost = cost product,
                      ci_quantity = quantity,
                      ci_total = price product * of_int quantity,
                      ci_taxAmount =
                        taxAmount (exclusiveTax (price product * of_int quantity) (taxRate p)),
                      ci_stock = stock product,
                      ci_unit = unit product\<rparr>])
             in (Inr newCart, p\<lparr>cart := newCart\<rparr>)))"

definition updateCartSummary :: "cartItem list \<Rightarrow> summary" where
  "updateCartSummary c =
     (let s0 = \<lparr>subtotal = 0, tax = 0, discount = 0, total = 0, itemCount = 0\<rparr>;
          s1 = foldl (\<lambda>sm i. sm\<lparr>subtotal := subtotal sm + ci_total i,
                                 tax := tax sm + ci_taxAmount i,
                                 itemCount := itemCount sm + ci_quantity i\<rparr>) s0 c
      in s1\<lparr>total := subtotal s1 + tax s1 - discount s1\<rparr>)"

definition clearCart :: "pos \<Rightarrow> pos" where
  "clearCart p = p\<lparr>cart := [], currentCustomer := None\<rparr>"

subsection \<open>Payment\<close>

text \<open>\<^verbatim>\<open>toLowerCase\<close> and \<^verbatim>\<open>includes\<close>, on ASCII text.\<close>

definition lowerChar :: "char \<Rightarrow> char" where
  "lowerChar c =
     (let n = (of_char c :: nat) in if 65 \<le> n \<and> n \<le> 90 then char_of (n + 32) else c)"

definition toLowerCase :: "string \<Rightarrow> string" where
  "toLowerCase str = map lowerChar str"

fun startsWith :: "string \<Rightarrow> string \<Rightarrow> bool" where
  "startsWith str [] = True"
| "startsWith [] (c # cs) = False"
| "startsWith (d # ds) (c # cs) = (d = c \<and> startsWith ds cs)"

fun includesText :: "string \<Rightarrow> string \<Rightarrow> bool" where
  "includesText [] sub = (sub = [])"
| "includesText (d # ds) sub = (startsWith (d # ds) sub \<or> includesText ds sub)"

text \<open>\<^verbatim>\<open>accounts[0]?.id\<close>: the id of the first account, absent when there is none.\<close>

definition firstAccountId :: "account collection \<Rightarrow> string option" where
  "firstAccountId accs = (case accs of [] \<Rightarrow> None | a # rest \<Rightarrow> Some (fst a))"

definition defaultAccountNamed :: "account collection \<Rightarrow> string \<Rightarrow> string option" where
  "defaultAccountNamed accs word =
     (case find (\<lambda>a. includesText (toLowerCase (accountName (snd a))) word \<and> isDefault (snd a)) accs of
        Some a \<Rightarrow> Some (fst a)
      | None \<Rightarrow> firstAccountId accs)"

definition getPaymentAccount :: "account collection \<Rightarrow> string \<Rightarrow> string option" where
  "getPaymentAccount accs paymentMethod =
     (if paymentMethod = ''Cash'' then defaultAccountNamed accs ''cash''
      else if paymentMethod = ''Card'' \<or> paymentMethod = ''Bank Transfer''
        then defaultAccountNamed accs ''bank''
      else if paymentMethod = ''Mobile Money'' then defaultAccountNamed accs ''mobile''
      else firstAccountId accs)"

text \<open>\<^verbatim>\<open>paymentData.reference || ...\<close> and \<^verbatim>\<open>paymentData.cashTendered || amount\<close>.\<close>

definition truthyText :: "string option \<Rightarrow> string option" where
  "truthyText v = (case v of None \<Rightarrow> None | Some x \<Rightarrow> if x = [] then None else Some x)"

definition orAmount :: "rat option \<Rightarrow> rat \<Rightarrow> rat" where
  "orAmount v amt = (case v of None \<Rightarrow> amt | Some x \<Rightarrow> if x = 0 then amt else x)"

text \<open>
  The switch of \<^verbatim>\<open>processPayment\<close> over the payment method. The reference of a
  payment is the one given, or one generated from the clock (\<open>None\<close> here).
\<close>

definition settlePayment :: "pos \<Rightarrow> rat \<Rightarrow> paymentData \<Rightarrow> payment op" where
  "settlePayment p amt pd s =
     (let pay = \<lparr>p_amount = amt, p_method = pd_method pd,
                 p_reference = truthyText (pd_reference pd), p_status = ''pending'',
                 p_cashTendered = None, p_change = None, p_success = False\<rparr>
      in if pd_method pd = ''Cash'' then
           (let tendered = orAmount (pd_cashTendered pd) amt
            in (Inr (pay\<lparr>p_status := ''completed'', p_cashTendered := Some tendered,
                          p_change := Some (tendered - amt)\<rparr>), s))
         else if pd_method pd = ''Card'' then (Inr (pay\<lparr>p_status := ''completed''\<rparr>), s)
         else if pd_method pd = ''Mobile Money'' then (Inr (pay\<lparr>p_status := ''completed''\<rparr>), s)
         else if pd_method pd = ''Credit'' then
           (case currentCustomer p of
              None \<Rightarrow> (Inl CustomerRequiredForCredit, s)
            | Some c \<Rightarrow>
                (case updateCustomerCredit (cr_id c) amt ''increase'' s of
                   (Inl e, s1) \<Rightarrow> (Inl e, s1)
                 | (Inr b, s1) \<Rightarrow> (Inr (pay\<lparr>p_status := ''completed''\<rparr>), s1)))
         else (Inl (UnsupportedPaymentMethod (pd_method pd)), s))"

text \<open>
  \<^verbatim>\<open>processPayment\<close> then records the income through
  \<^verbatim>\<open>financeManager.recordTransaction\<close>. The class \<^verbatim>\<open>FinanceManager\<close> of the
  sources defines no method of that name, so what the call does is the parameter
  \<open>financeRecord\<close>.
\<close>

definition processPayment ::
  "(transactionData \<Rightarrow> unit op) \<Rightarrow> pos \<Rightarrow> rat \<Rightarrow> paymentData \<Rightarrow> payment op" where
  "processPayment financeRecord p amt pd s =
     (case settlePayment p amt pd s of
        (Inl e, s1) \<Rightarrow> (Inl e, s1)
      | (Inr pay, s1) \<Rightarrow>
          if p_status pay = ''completed'' then
            (case financeRecord
                    \<lparr>txType = Some ''income'', amount = Some amt,
                     accountId = getPaymentAccount (accounts s1) (pd_method pd),
                     category = Some ''Sales'', toAccountId = None, txNotes = None\<rparr> s1 of
               (Inl e, s2) \<Rightarrow> (Inl e, s2)
             | (Inr u, s2) \<Rightarrow> (Inr (pay\<lparr>p_success := True\<rparr>), s2))
          else (Inr (pay\<lparr>p_success := False\<rparr>), s1))"

subsection \<open>Sale record, inventory, customer statistics, receipt\<close>

definition toSaleItem :: "cartItem \<Rightarrow> saleItem" where
  "toSaleItem i =
     \<lparr>si_productId = ci_productId i, si_name = ci_name i, si_sku = ci_sku i,
      si_quantity = ci_quantity i, si_price = ci_price i, si_total = ci_total i,
      si_cost = ci_cost i\<rparr>"

definition createSaleRecord :: "pos \<Rightarrow> payment \<Rightarrow> (nat \<times> saleDoc doc) op" where
  "createSaleRecord p pay s =
     (let summ = updateCartSummary (cart p)
      in case defaultUser s of
           None \<Rightarrow> (Inl TypeError, s)
         | Some employee \<Rightarrow>
             (let sl = \<lparr>s_items = map toSaleItem (cart p),
                        s_customerId = map_option cr_id (currentCustomer p),
                        s_customerName =
                          (case currentCustomer p of
                             None \<Rightarrow> ''Walk-in Customer''
                           | Some c \<Rightarrow> if cr_name c = [] then ''Walk-in Customer'' else cr_name c),
                        s_subtotal = subtotal summ, s_tax = tax summ,
                        s_discount = discount summ, s_total = total summ,
                        s_paymentMethod = p_method pay,
                        s_paymentReference = p_reference pay,
                        s_status = ''completed'', s_employeeId = employee\<rparr>
              in case addDocument (masterUser s) (sales s) (SaleRecord sl) of
                   Inl e \<Rightarrow> (Inl e, s)
                 | Inr (result, c) \<Rightarrow>
                     (let s1 = s\<lparr>sales := c\<rparr>
                      in case auditLog ''sale'' (fst result) ''create'' s1 of
                           (Inl e, s2) \<Rightarrow> (Inl e, s2)
                         | (Inr a, s2) \<Rightarrow> (Inr result, s2))))"

fun updateInventory :: "cartItem list \<Rightarrow> unit op" where
  "updateInventory [] s = (Inr (), s)"
| "updateInventory (i # rest) s =
     (case updateStock (ci_productId i) (- ci_quantity i) ''sale'' (Some ''POS Sale'') s of
        (Inl e, s1) \<Rightarrow> (Inl e, s1)
      | (Inr n, s1) \<Rightarrow> updateInventory rest s1)"

definition updateCustomerPurchaseStats :: "string \<Rightarrow> rat \<Rightarrow> unit op" where
  "updateCustomerPurchaseStats customerId amt s =
     (case getDocument (customers s) customerId of
        None \<Rightarrow> (Inr (), s)
      | Some cust \<Rightarrow>
          (case updateDocument (masterUser s) (customers s) customerId
                  (\<lambda>c. c\<lparr>totalPurchases := totalPurchases cust + 1,
                          totalSpent := totalSpent cust + amt,
                          creditUsed := outstandingBalance cust,
                          hasFirstPurchase := True\<rparr>) of
             Inl e \<Rightarrow> (Inl e, s)
           | Inr c \<Rightarrow> (Inr (), s\<lparr>customers := c\<rparr>)))"

definition recordPurchase :: "string \<Rightarrow> purchase \<Rightarrow> (nat \<times> saleDoc doc) op" where
  "recordPurchase customerId purchaseData s =
     (let pur = purchaseData\<lparr>pu_customerId := customerId, pu_status := ''completed'',
                 pu_paymentMethod := (if pu_paymentMethod purchaseData = [] then ''cash''
                                      else pu_paymentMethod purchaseData)\<rparr>
      in case addDocument (masterUser s) (sales s) (PurchaseRecord pur) of
           Inl e \<Rightarrow> (Inl e, s)
         | Inr (result, c) \<Rightarrow>
             (case updateCustomerPurchaseStats customerId (pu_amount pur) (s\<lparr>sales := c\<rparr>) of
                (Inl e, s2) \<Rightarrow> (Inl e, s2)
              | (Inr u, s2) \<Rightarrow> (Inr result, s2)))"

definition updateCustomerAfterPurchase :: "pos \<Rightarrow> payment \<Rightarrow> unit op" where
  "updateCustomerAfterPurchase p pay s =
     (case currentCustomer p of
        None \<Rightarrow> (Inr (), s)
      | Some c \<Rightarrow>
          (let summ = updateCartSummary (cart p)
           in case recordPurchase (cr_id c)
                     \<lparr>pu_amount = total summ, pu_items = length (cart p),
                      pu_paymentMethod = p_method pay, pu_saleId = p_reference pay,
                      pu_customerId = cr_id c, pu_status = ''completed''\<rparr> s of
                (Inl e, s1) \<Rightarrow> (Inl e, s1)
              | (Inr r, s1) \<Rightarrow> (Inr (), s1)))"

text \<open>
  \<^verbatim>\<open>generateReceipt\<close> reads the display name of
  \<^verbatim>\<open>firebase.auth().currentUser\<close> before it saves the receipt.
\<close>

definition generateReceipt :: "pos \<Rightarrow> nat \<times> saleDoc doc \<Rightarrow> payment \<Rightarrow> receipt op" where
  "generateReceipt p sl pay s =
     (case defaultUser s of
        None \<Rightarrow> (Inl TypeError, s)
      | Some u \<Rightarrow>
          (let rc = \<lparr>r_saleId = fst sl, r_items = cart p,
                     r_summary = updateCartSummary (cart p), r_payment = pay,
                     r_customer = currentCustomer p\<rparr>
           in case addDocument (masterUser s) (receipts s) rc of
                Inl e \<Rightarrow> (Inl e, s)
              | Inr (result, c) \<Rightarrow> (Inr rc, s\<lparr>receipts := c\<rparr>)))"

subsection \<open>Checkout\<close>

record checkoutResult =
  co_sale :: "nat \<times> saleDoc doc"
  co_receipt :: receipt
  co_payment :: payment

text \<open>
  The validation of a credit payment: it reads the customer again from the store and
  compares the total of the cart with the credit that is left. Reading a field of a
  customer the store no longer has raises a \<open>TypeError\<close>.
\<close>

definition validatePayment :: "paymentData \<Rightarrow> pos \<Rightarrow> summary \<Rightarrow> store \<Rightarrow> error + unit" where
  "validatePayment pd p summ s =
     (case currentCustomer p of
        None \<Rightarrow> Inr ()
      | Some c \<Rightarrow>
          if pd_method pd = ''Credit'' then
            (case getDocument (customers s) (cr_id c) of
               None \<Rightarrow> Inl TypeError
             | Some cust \<Rightarrow>
                 (let availableCredit = creditLimit cust - creditUsed cust
                  in if total summ > availableCredit then Inl CreditLimitExceeded
                     else Inr ()))
          else Inr ())"

definition processCheckout ::
  "(transactionData \<Rightarrow> unit op) \<Rightarrow> paymentData \<Rightarrow> pos \<Rightarrow> store \<Rightarrow>
     (error + checkoutResult) \<times> pos \<times> store" where
  "processCheckout financeRecord pd p s =
     (if cart p = [] then (Inl CartIsEmpty, p, s)
      else
        (let summ = updateCartSummary (cart p)
         in case validatePayment pd p summ s of
              Inl e \<Rightarrow> (Inl e, p, s)
            | Inr ok \<Rightarrow>
        (case processPayment financeRecord p (total summ) pd s of
           (Inl e, s1) \<Rightarrow> (Inl e, p, s1)
         | (Inr paymentResult, s1) \<Rightarrow>
        if \<not> p_success paymentResult then (Inl PaymentFailed, p, s1)
        else
        (case createSaleRecord p paymentResult s1 of
           (Inl e, s2) \<Rightarrow> (Inl e, p, s2)
         | (Inr sl, s2) \<Rightarrow>
        (case updateInventory (cart p) s2 of
           (Inl e, s3) \<Rightarrow> (Inl e, p, s3)
         | (Inr u, s3) \<Rightarrow>
        (case updateCustomerAfterPurchase p paymentResult s3 of
           (Inl e, s4) \<Rightarrow> (Inl e, p, s4)
         | (Inr u', s4) \<Rightarrow>
        (case generateReceipt p sl paymentResult s4 of
           (Inl e, s5) \<Rightarrow> (Inl e, p, s5)
         | (Inr rc, s5) \<Rightarrow>
             (Inr \<lparr>co_sale = sl, co_receipt = rc, co_payment = paymentResult\<rparr>,
              clearCart p, s5))))))))"

section \<open>Observations used to state the properties\<close>

text \<open>The balance of an account, \<open>None\<close> when the account does not exist.\<close>

definition balanceOf :: "store \<Rightarrow> string \<Rightarrow> rat option" where
  "balanceOf s i = map_option balance (getDocument (accounts s) i)"

text \<open>The document \<^verbatim>\<open>recordTransaction\<close> stores for validated fields.\<close>

definition storedTransaction :: "transactionData \<Rightarrow> string \<Rightarrow> rat \<Rightarrow> string \<Rightarrow> string \<Rightarrow> transaction" where
  "storedTransaction td ty am acc cat =
     \<lparr>t_type = ty, t_amount = am, t_accountId = acc, t_category = cat,
      t_toAccountId = toAccountId td, t_status = ''completed'',
      t_reconciled = False, t_notes = orEmpty (txNotes td)\<rparr>"

text \<open>
  The stores, carts and inputs of the scenarios. In every one of them the owner is
  signed in.
\<close>

definition signedInStore :: store where
  "signedInStore =
     \<lparr>masterUser = Some ''owner'', defaultUser = Some ''owner'', accounts = [],
      products = [], customers = [], transactions = [], inventory_logs = [],
      credit_transactions = [], audit_logs = [], sales = [], receipts = []\<rparr>"

definition transferStore :: store where
  "transferStore = signedInStore\<lparr>accounts :=
     [(''A'', \<lparr>accountName = ''Account A'', balance = 100, isDefault = True\<rparr>),
      (''B'', \<lparr>accountName = ''Account B'', balance = 0, isDefault = False\<rparr>)]\<rparr>"

definition transferData :: transactionData where
  "transferData = \<lparr>txType = Some ''transfer'', amount = Some 50, accountId = Some ''A'',
     category = Some ''Account Transfer'', toAccountId = Some ''B'', txNotes = None\<rparr>"

definition danglingTransfer :: transactionData where
  "danglingTransfer = transferData\<lparr>toAccountId := Some ''Z''\<rparr>"

definition cashStore :: store where
  "cashStore = signedInStore\<lparr>accounts :=
     [(''Cash'', \<lparr>accountName = ''Cash'', balance = 100, isDefault = True\<rparr>)]\<rparr>"

definition negativeIncome :: transactionData where
  "negativeIncome = \<lparr>txType = Some ''income'', amount = Some (- 5), accountId = Some ''Cash'',
     category = Some ''Sales'', toAccountId = None, txNotes = None\<rparr>"

definition zeroIncome :: transactionData where
  "zeroIncome = negativeIncome\<lparr>amount := Some 0\<rparr>"

text \<open>The stock of a product, \<open>None\<close> when the product does not exist.\<close>

definition stockOf :: "store \<Rightarrow> string \<Rightarrow> int option" where
  "stockOf s i = map_option stock (getDocument (products s) i)"

text \<open>
  A sequence of \<^verbatim>\<open>updateStock\<close> calls, each awaited before the next: the outcomes
  in order and the store after the last. A failed call does not stop the sequence.
\<close>

type_synonym stockCall = "string \<times> int \<times> string \<times> string option"

fun updateStockCalls :: "stockCall list \<Rightarrow> store \<Rightarrow> (error + int) list \<times> store" where
  "updateStockCalls [] s = ([], s)"
| "updateStockCalls ((pid, q, reason, reference) # cs) s =
     (case updateStock pid q reason reference s of
        (r, s1) \<Rightarrow> (case updateStockCalls cs s1 of (rs, s2) \<Rightarrow> (r # rs, s2)))"

text \<open>The sum of the quantity changes of the successful calls on one product.\<close>

fun appliedChanges :: "string \<Rightarrow> stockCall list \<Rightarrow> (error + int) list \<Rightarrow> int" where
  "appliedChanges pid ((p, q, reason, reference) # cs) (r # rs) =
     (if p = pid \<and> \<not> isl r then q else 0) + appliedChanges pid cs rs"
| "appliedChanges pid cs rs = 0"

definition widget :: product where
  "widget = \<lparr>productName = ''Widget'', sku = ''W-1'', price = 10, cost = 6, stock = 10,
             reorderLevel = 5, lowStock = False, unit = ''pcs''\<rparr>"

definition stockStore :: store where
  "stockStore = signedInStore\<lparr>products := [(''P1'', widget)]\<rparr>"

definition stockCalls :: "stockCall list" where
  "stockCalls = [(''P1'', - 12, ''sale'', None), (''P1'', - 3, ''sale'', None),
                 (''P1'', 5, ''restock'', None)]"

definition regular :: customer where
  "regular = \<lparr>customerName = ''Regular'', outstandingBalance = 90, creditLimit = 100,
              creditUsed = 90, totalPurchases = 3, totalSpent = 300,
              hasFirstPurchase = True\<rparr>"

definition unlimited :: customer where
  "unlimited = \<lparr>customerName = ''Unlimited'', outstandingBalance = 0, creditLimit = 0,
                creditUsed = 0, totalPurchases = 0, totalSpent = 0,
                hasFirstPurchase = False\<rparr>"

definition creditStore :: store where
  "creditStore = signedInStore\<lparr>customers := [(''C1'', regular), (''C2'', unlimited)]\<rparr>"

text \<open>The sum of the amounts of the transactions that satisfy a condition.\<close>

definition sumWhere :: "(transaction \<Rightarrow> bool) \<Rightarrow> transaction list \<Rightarrow> rat" where
  "sumWhere P ts = sum_list (map t_amount (filter P ts))"

definition cogsPurchase :: transaction where
  "cogsPurchase = \<lparr>t_type = ''expense'', t_amount = 5, t_accountId = ''Cash'',
                   t_category = ''Cost of Goods'', t_toAccountId = None,
                   t_status = ''completed'', t_reconciled = False, t_notes = []\<rparr>"

definition emptyPos :: pos where
  "emptyPos = \<lparr>cart = [], currentCustomer = None, taxRate = 16\<rparr>"

text \<open>
  A cart with one line of total 20 and no tax, and the customer \<open>C1\<close> attached. The
  stand-in for \<^verbatim>\<open>financeManager.recordTransaction\<close> raises the \<open>TypeError\<close> of
  calling what is not a function.
\<close>

definition creditPos :: pos where
  "creditPos =
     \<lparr>cart = [\<lparr>ci_productId = ''P1'', ci_name = ''Widget'', ci_sku = ''W-1'',
               ci_price = 10, ci_cost = 6, ci_quantity = 2, ci_total = 20,
               ci_taxAmount = 0, ci_stock = 10, ci_unit = ''pcs''\<rparr>],
      currentCustomer = Some \<lparr>cr_id = ''C1'', cr_name = ''Regular''\<rparr>,
      taxRate = 0\<rparr>"

definition creditPayment :: paymentData where
  "creditPayment = \<lparr>pd_method = ''Credit'', pd_reference = None, pd_cashTendered = None\<rparr>"

definition notAFunction :: "transactionData \<Rightarrow> unit op" where
  "notAFunction td s = (Inl TypeError, s)"

section \<open>Properties of the transaction recorder\<close>

lemma balanceOf_accounts_update:
  "balanceOf (s\<lparr>accounts := AList.update a v (accounts s)\<rparr>) x =
     (if x = a then Some (balance v) else balanceOf s x)"
  by (simp add: balanceOf_def getDocument_def update_conv')

lemma updateAccountBalance_found:
  assumes "masterUser s = Some u" and "getDocument (accounts s) a = Some acct"
  shows "updateAccountBalance a x s =
           (Inr (balance acct + x),
            s\<lparr>accounts := AList.update a (acct\<lparr>balance := balance acct + x\<rparr>) (accounts s)\<rparr>)"
  using assms by (simp add: updateAccountBalance_def updateDocument_def getDocument_def Let_def)

lemma updateAccountBalance_missing:
  "getDocument (accounts s) a = None \<Longrightarrow> updateAccountBalance a x s = (Inl AccountNotFound, s)"
  by (simp add: updateAccountBalance_def)

lemma updateAccountBalance_balanceOf:
  assumes "masterUser s = Some u" and "balanceOf s a = Some b"
  shows "\<exists>s'. updateAccountBalance a x s = (Inr (b + x), s')
           \<and> (\<forall>y. balanceOf s' y = (if y = a then Some (b + x) else balanceOf s y))
           \<and> masterUser s' = masterUser s \<and> transactions s' = transactions s
           \<and> audit_logs s' = audit_logs s"
proof -
  from assms(2) obtain acct where a: "getDocument (accounts s) a = Some acct" and b: "balance acct = b"
    by (auto simp: balanceOf_def)
  show ?thesis
    unfolding updateAccountBalance_found[OF assms(1) a] b
    by (simp add: balanceOf_accounts_update)
qed

lemma requireText_ok: "v = Some x \<Longrightarrow> x \<noteq> [] \<Longrightarrow> requireText f v = Inr x"
  by (simp add: requireText_def)

lemma requireNumber_ok: "v = Some x \<Longrightarrow> x \<noteq> 0 \<Longrightarrow> requireNumber f v = Inr x"
  by (simp add: requireNumber_def)

lemma recordTransaction_valid:
  assumes "txType td = Some ty" "ty \<noteq> []" "amount td = Some am" "am \<noteq> 0"
    and "accountId td = Some acc" "acc \<noteq> []" "category td = Some cat" "cat \<noteq> []"
    and "applyBalances ty am acc (toAccountId td) s = (Inr (), s1)"
    and "masterUser s1 = Some u"
  shows "recordTransaction td s =
           (Inr (length (transactions s1),
                 \<lparr>userId = u, content = storedTransaction td ty am acc cat\<rparr>),
            s1\<lparr>transactions := transactions s1 @
                   [\<lparr>userId = u, content = storedTransaction td ty am acc cat\<rparr>],
               audit_logs := audit_logs s1 @
                   [\<lparr>userId = u, content = \<lparr>entity = ''transaction'',
                        entityId = length (transactions s1), action = ''create''\<rparr>\<rparr>]\<rparr>)"
  using assms
  by (simp add: recordTransaction_def requireText_ok requireNumber_ok Let_def
        addDocument_def auditLog_def storedTransaction_def)

lemma recordTransaction_balances_fail:
  assumes "txType td = Some ty" "ty \<noteq> []" "amount td = Some am" "am \<noteq> 0"
    and "accountId td = Some acc" "acc \<noteq> []" "category td = Some cat" "cat \<noteq> []"
    and "applyBalances ty am acc (toAccountId td) s = (Inl e, s1)"
  shows "recordTransaction td s = (Inl e, s1)"
  using assms
  by (simp add: recordTransaction_def requireText_ok requireNumber_ok Let_def)

lemma applyBalances_income:
  assumes "masterUser s = Some u" "balanceOf s acc = Some b"
  shows "\<exists>s1. applyBalances ''income'' am acc toAcc s = (Inr (), s1)
           \<and> (\<forall>y. balanceOf s1 y = (if y = acc then Some (b + am) else balanceOf s y))
           \<and> masterUser s1 = masterUser s \<and> transactions s1 = transactions s"
proof -
  from updateAccountBalance_balanceOf[OF assms, of am]
  obtain s1 where "updateAccountBalance acc am s = (Inr (b + am), s1)"
    and "\<forall>y. balanceOf s1 y = (if y = acc then Some (b + am) else balanceOf s y)"
    and "masterUser s1 = masterUser s" "transactions s1 = transactions s"
    by blast
  then show ?thesis by (simp add: applyBalances_def)
qed

lemma applyBalances_expense:
  assumes "masterUser s = Some u" "balanceOf s acc = Some b"
  shows "\<exists>s1. applyBalances ''expense'' am acc toAcc s = (Inr (), s1)
           \<and> (\<forall>y. balanceOf s1 y = (if y = acc then Some (b - am) else balanceOf s y))
           \<and> masterUser s1 = masterUser s \<and> transactions s1 = transactions s"
proof -
  from updateAccountBalance_balanceOf[OF assms, of "- am"]
  obtain s1 where "updateAccountBalance acc (- am) s = (Inr (b + - am), s1)"
    and "\<forall>y. balanceOf s1 y = (if y = acc then Some (b + - am) else balanceOf s y)"
    and "masterUser s1 = masterUser s" "transactions s1 = transactions s"
    by blast
  then show ?thesis by (simp add: applyBalances_def)
qed

lemma applyBalances_transfer:
  assumes "masterUser s = Some u" "balanceOf s acc = Some b"
    and "toId \<noteq> []" "balanceOf s toId = Some b2"
  shows "\<exists>s2. applyBalances ''transfer'' am acc (Some toId) s = (Inr (), s2)
           \<and> (\<forall>y. balanceOf s2 y =
                 (if y = toId then Some ((if toId = acc then b - am else b2) + am)
                  else if y = acc then Some (b - am) else balanceOf s y))
           \<and> masterUser s2 = masterUser s \<and> transactions s2 = transactions s"
proof -
  from updateAccountBalance_balanceOf[OF assms(1,2), of "- am"]
  obtain s1 where 1: "updateAccountBalance acc (- am) s = (Inr (b + - am), s1)"
    and b1: "\<forall>y. balanceOf s1 y = (if y = acc then Some (b + - am) else balanceOf s y)"
    and u1: "masterUser s1 = masterUser s" and t1: "transactions s1 = transactions s"
    by blast
  let ?c = "if toId = acc then b - am else b2"
  have "masterUser s1 = Some u" using u1 assms(1) by simp
  moreover have "balanceOf s1 toId = Some ?c" using b1 assms(4) by simp
  ultimately obtain s2 where 2: "updateAccountBalance toId am s1 = (Inr (?c + am), s2)"
    and b2: "\<forall>y. balanceOf s2 y = (if y = toId then Some (?c + am) else balanceOf s1 y)"
    and u2: "masterUser s2 = masterUser s1" and t2: "transactions s2 = transactions s1"
    using updateAccountBalance_balanceOf[of s1 u toId ?c am] by blast
  have "applyBalances ''transfer'' am acc (Some toId) s = (Inr (), s2)"
    using 1 2 assms(3) by (simp add: applyBalances_def requireText_def)
  moreover have "\<forall>y. balanceOf s2 y =
                 (if y = toId then Some (?c + am)
                  else if y = acc then Some (b - am) else balanceOf s y)"
    using b1 b2 by simp
  ultimately show ?thesis using u1 u2 t1 t2 by simp
qed

text \<open>
  Claim C1. A call of \<^verbatim>\<open>recordTransaction\<close> by a signed-in user, with every required
  field present and the referenced accounts in the store, succeeds. For type income it
  adds the amount to the balance of \<open>accountId\<close>, for type expense it subtracts it,
  and for type transfer it subtracts it from \<open>accountId\<close> and adds it to
  \<open>toAccountId\<close> (a transfer from an account to itself leaves every balance as it
  was). No other balance changes. Exactly one transaction document is appended, and it
  is the one returned.
\<close>

theorem recordTransaction_effect:
  assumes auth: "masterUser s = Some u"
    and ty: "txType td = Some ty" "ty = ''income'' \<or> ty = ''expense'' \<or> ty = ''transfer''"
    and am: "amount td = Some am" "am \<noteq> 0"
    and acc: "accountId td = Some acc" "acc \<noteq> []"
    and cat: "category td = Some cat" "cat \<noteq> []"
    and src: "balanceOf s acc = Some b"
    and dst: "ty = ''transfer'' \<Longrightarrow>
                toAccountId td = Some toId \<and> toId \<noteq> [] \<and> balanceOf s toId = Some b2"
  shows "\<exists>d s'. recordTransaction td s = (Inr (length (transactions s), d), s')
           \<and> transactions s' = transactions s @ [d]
           \<and> t_type (content d) = ty \<and> t_amount (content d) = am
           \<and> t_accountId (content d) = acc \<and> t_toAccountId (content d) = toAccountId td
           \<and> (ty = ''income'' \<longrightarrow>
                (\<forall>y. balanceOf s' y = (if y = acc then Some (b + am) else balanceOf s y)))
           \<and> (ty = ''expense'' \<longrightarrow>
                (\<forall>y. balanceOf s' y = (if y = acc then Some (b - am) else balanceOf s y)))
           \<and> (ty = ''transfer'' \<and> toId \<noteq> acc \<longrightarrow>
                balanceOf s' acc = Some (b - am) \<and> balanceOf s' toId = Some (b2 + am)
                \<and> (\<forall>y. y \<noteq> acc \<and> y \<noteq> toId \<longrightarrow> balanceOf s' y = balanceOf s y))
           \<and> (ty = ''transfer'' \<and> toId = acc \<longrightarrow> (\<forall>y. balanceOf s' y = balanceOf s y))"
proof -
  let ?d = "\<lparr>userId = u, content = storedTransaction td ty am acc cat\<rparr>"
  have tyne: "ty \<noteq> []" using ty(2) by auto
  have bal: "\<And>s1 x. balanceOf
      (s1\<lparr>transactions := x, audit_logs := y\<rparr>) = balanceOf s1" for y
    by (simp add: balanceOf_def fun_eq_iff)
  have step: "\<exists>s'. recordTransaction td s = (Inr (length (transactions s), ?d), s')
           \<and> transactions s' = transactions s @ [?d] \<and> balanceOf s' = balanceOf s1"
    if "applyBalances ty am acc (toAccountId td) s = (Inr (), s1)"
      and "masterUser s1 = masterUser s" and "transactions s1 = transactions s" for s1
    using recordTransaction_valid[OF ty(1) tyne am acc cat that(1), of u] that(2,3) auth
    by (simp add: bal)
  consider (inc) "ty = ''income''" | (exp) "ty = ''expense''" | (tr) "ty = ''transfer''"
    using ty(2) by blast
  then show ?thesis
  proof cases
    case inc
    from applyBalances_income[OF auth src, of am "toAccountId td"] obtain s1 where
      a: "applyBalances ''income'' am acc (toAccountId td) s = (Inr (), s1)"
      and b: "\<forall>y. balanceOf s1 y = (if y = acc then Some (b + am) else balanceOf s y)"
      and c: "masterUser s1 = masterUser s" "transactions s1 = transactions s" by blast
    from step[OF a[folded inc] c] obtain s' where
      "recordTransaction td s = (Inr (length (transactions s), ?d), s')"
      "transactions s' = transactions s @ [?d]" "balanceOf s' = balanceOf s1" by blast
    then show ?thesis using b inc by (simp add: storedTransaction_def)
  next
    case exp
    from applyBalances_expense[OF auth src, of am "toAccountId td"] obtain s1 where
      a: "applyBalances ''expense'' am acc (toAccountId td) s = (Inr (), s1)"
      and b: "\<forall>y. balanceOf s1 y = (if y = acc then Some (b - am) else balanceOf s y)"
      and c: "masterUser s1 = masterUser s" "transactions s1 = transactions s" by blast
    from step[OF a[folded exp] c] obtain s' where
      "recordTransaction td s = (Inr (length (transactions s), ?d), s')"
      "transactions s' = transactions s @ [?d]" "balanceOf s' = balanceOf s1" by blast
    then show ?thesis using b exp by (simp add: storedTransaction_def)
  next
    case tr
    from dst[OF tr] have t: "toAccountId td = Some toId" "toId \<noteq> []"
      "balanceOf s toId = Some b2" by simp_all
    from applyBalances_transfer[OF auth src t(2,3), of am] obtain s2 where
      a: "applyBalances ''transfer'' am acc (Some toId) s = (Inr (), s2)"
      and b: "\<forall>y. balanceOf s2 y =
                 (if y = toId then Some ((if toId = acc then b - am else b2) + am)
                  else if y = acc then Some (b - am) else balanceOf s y)"
      and c: "masterUser s2 = masterUser s" "transactions s2 = transactions s" by blast
    from step[OF a[folded tr t(1)] c] obtain s' where
      "recordTransaction td s = (Inr (length (transactions s), ?d), s')"
      "transactions s' = transactions s @ [?d]" "balanceOf s' = balanceOf s2" by blast
    then show ?thesis using b tr src by (auto simp: storedTransaction_def)
  qed
qed

text \<open>
  The scenario of C1: a transfer of 50 from account A (balance 100) to account B
  (balance 0) leaves 50 and 50 and exactly one transaction, of type transfer.
\<close>

theorem recordTransaction_effect_witness:
  "isl (fst (recordTransaction transferData transferStore)) = False
   \<and> map (t_type \<circ> content) (transactions (snd (recordTransaction transferData transferStore)))
       = [''transfer'']
   \<and> balanceOf (snd (recordTransaction transferData transferStore)) ''A'' = Some 50
   \<and> balanceOf (snd (recordTransaction transferData transferStore)) ''B'' = Some 50"
proof -
  have auth: "masterUser transferStore = Some ''owner''"
    by (simp add: transferStore_def signedInStore_def)
  have ty: "txType transferData = Some ''transfer''"
    "''transfer'' = ''income'' \<or> ''transfer'' = ''expense'' \<or> ''transfer'' = ''transfer''"
    by (simp_all add: transferData_def)
  have am: "amount transferData = Some 50" "(50::rat) \<noteq> 0"
    by (simp_all add: transferData_def)
  have acc: "accountId transferData = Some ''A''" "''A'' \<noteq> []"
    by (simp_all add: transferData_def)
  have cat: "category transferData = Some ''Account Transfer''" "''Account Transfer'' \<noteq> []"
    by (simp_all add: transferData_def)
  have src: "balanceOf transferStore ''A'' = Some 100"
    by (simp add: transferStore_def balanceOf_def getDocument_def)
  have dst: "toAccountId transferData = Some ''B'' \<and> ''B'' \<noteq> []
             \<and> balanceOf transferStore ''B'' = Some 0"
    by (simp add: transferStore_def transferData_def balanceOf_def getDocument_def)
  have tx: "transactions transferStore = []"
    by (simp add: transferStore_def signedInStore_def)
  from recordTransaction_effect[OF auth ty am acc cat src dst]
  obtain d s' where r: "recordTransaction transferData transferStore = (Inr (0, d), s')"
    and t: "transactions s' = [d]" "t_type (content d) = ''transfer''"
    and b: "balanceOf s' ''A'' = Some (100 - 50)" "balanceOf s' ''B'' = Some (0 + 50)"
    unfolding tx by auto
  show ?thesis unfolding r using t b by simp
qed

text \<open>
  Claim C4, as the code has it. \<^verbatim>\<open>recordTransaction\<close> fails with a validation
  error, creates no document and changes no balance (the store is returned as it was)
  when the type, the account id or the category is absent or empty, when the amount is
  absent or \<open>0\<close>, or when the type is transfer and \<open>toAccountId\<close> is absent or
  empty. The check of the amount is a check for presence: a negative amount passes it.
\<close>

theorem recordTransaction_validation:
  assumes "txType td = None \<or> txType td = Some [] \<or> amount td = None \<or> amount td = Some 0
         \<or> accountId td = None \<or> accountId td = Some []
         \<or> category td = None \<or> category td = Some []
         \<or> (txType td = Some ''transfer'' \<and> (toAccountId td = None \<or> toAccountId td = Some []))"
  shows "\<exists>e. recordTransaction td s = (Inl e, s) \<and> isValidationError e"
proof (cases "requireText ''type'' (txType td)")
  case (Inl e)
  then show ?thesis
    by (auto simp: recordTransaction_def requireText_def split: option.splits if_splits)
next
  case ty: (Inr ty)
  show ?thesis
  proof (cases "requireNumber ''amount'' (amount td)")
    case (Inl e)
    then show ?thesis using ty
      by (auto simp: recordTransaction_def requireNumber_def split: option.splits if_splits)
  next
    case am: (Inr am)
    show ?thesis
    proof (cases "requireText ''accountId'' (accountId td)")
      case (Inl e)
      then show ?thesis using ty am
        by (auto simp: recordTransaction_def requireText_def split: option.splits if_splits)
    next
      case acc: (Inr acc)
      show ?thesis
      proof (cases "requireText ''category'' (category td)")
        case (Inl e)
        then show ?thesis using ty am acc
          by (auto simp: recordTransaction_def requireText_def split: option.splits if_splits)
      next
        case cat: (Inr cat)
        from ty am acc cat assms
        have tr: "ty = ''transfer''" and to: "toAccountId td = None \<or> toAccountId td = Some []"
          by (auto simp: requireText_def requireNumber_def split: option.splits if_splits)
        have "applyBalances ty am acc (toAccountId td) s = (Inl TransferRequiresToAccountId, s)"
          using tr to by (auto simp: applyBalances_def requireText_def)
        then show ?thesis using ty am acc cat
          by (simp add: recordTransaction_def Let_def)
      qed
    qed
  qed
qed

text \<open>
  Claim C9. A transfer by a signed-in user whose source account exists and whose
  \<open>toAccountId\<close> is given but names no account fails with the not-found error after
  the balance of the source account was decreased by the amount; no transaction
  document is created and no other balance changes.
\<close>

theorem recordTransaction_partial_transfer:
  assumes auth: "masterUser s = Some u"
    and ty: "txType td = Some ''transfer''"
    and am: "amount td = Some am" "am \<noteq> 0"
    and acc: "accountId td = Some acc" "acc \<noteq> []"
    and cat: "category td = Some cat" "cat \<noteq> []"
    and src: "balanceOf s acc = Some b"
    and dst: "toAccountId td = Some toId" "toId \<noteq> []" "balanceOf s toId = None"
  shows "\<exists>s'. recordTransaction td s = (Inl AccountNotFound, s')
           \<and> balanceOf s' acc = Some (b - am)
           \<and> (\<forall>y. y \<noteq> acc \<longrightarrow> balanceOf s' y = balanceOf s y)
           \<and> transactions s' = transactions s"
proof -
  from updateAccountBalance_balanceOf[OF auth src, of "- am"]
  obtain s1 where 1: "updateAccountBalance acc (- am) s = (Inr (b + - am), s1)"
    and b1: "\<forall>y. balanceOf s1 y = (if y = acc then Some (b + - am) else balanceOf s y)"
    and t1: "transactions s1 = transactions s"
    by blast
  have ne: "toId \<noteq> acc" using src dst(3) by auto
  have "balanceOf s1 toId = None" using b1 ne dst(3) by simp
  then have "getDocument (accounts s1) toId = None" by (simp add: balanceOf_def)
  then have 2: "updateAccountBalance toId am s1 = (Inl AccountNotFound, s1)"
    by (rule updateAccountBalance_missing)
  have "applyBalances ''transfer'' am acc (toAccountId td) s = (Inl AccountNotFound, s1)"
    using 1 2 dst(1,2) by (simp add: applyBalances_def requireText_def)
  then have "recordTransaction td s = (Inl AccountNotFound, s1)"
    using recordTransaction_balances_fail[OF ty _ am acc cat] by simp
  then show ?thesis using b1 t1 by simp
qed

text \<open>
  A transfer of 50 from account A (balance 100) to the unknown account Z: A is left
  with 50, B keeps 0 and no transaction is recorded.
\<close>

theorem recordTransaction_partial_transfer_witness:
  "fst (recordTransaction danglingTransfer transferStore) = Inl AccountNotFound
   \<and> balanceOf (snd (recordTransaction danglingTransfer transferStore)) ''A'' = Some 50
   \<and> balanceOf (snd (recordTransaction danglingTransfer transferStore)) ''B'' = Some 0
   \<and> transactions (snd (recordTransaction danglingTransfer transferStore)) = []"
proof -
  have auth: "masterUser transferStore = Some ''owner''"
    by (simp add: transferStore_def signedInStore_def)
  have ty: "txType danglingTransfer = Some ''transfer''"
    by (simp add: danglingTransfer_def transferData_def)
  have am: "amount danglingTransfer = Some 50" "(50::rat) \<noteq> 0"
    by (simp_all add: danglingTransfer_def transferData_def)
  have acc: "accountId danglingTransfer = Some ''A''" "''A'' \<noteq> []"
    by (simp_all add: danglingTransfer_def transferData_def)
  have cat: "category danglingTransfer = Some ''Account Transfer''" "''Account Transfer'' \<noteq> []"
    by (simp_all add: danglingTransfer_def transferData_def)
  have src: "balanceOf transferStore ''A'' = Some 100"
    by (simp add: transferStore_def balanceOf_def getDocument_def)
  have dst: "toAccountId danglingTransfer = Some ''Z''" "''Z'' \<noteq> []"
    "balanceOf transferStore ''Z'' = None"
    by (simp_all add: danglingTransfer_def transferStore_def balanceOf_def getDocument_def)
  have old: "balanceOf transferStore ''B'' = Some 0" "transactions transferStore = []"
    by (simp_all add: transferStore_def signedInStore_def balanceOf_def getDocument_def)
  from recordTransaction_partial_transfer[OF auth ty am acc cat src dst]
  obtain s' where r: "recordTransaction danglingTransfer transferStore = (Inl AccountNotFound, s')"
    and b: "balanceOf s' ''A'' = Some (100 - 50)" "balanceOf s' ''B'' = balanceOf transferStore ''B''"
    and t: "transactions s' = transactions transferStore"
    by auto
  show ?thesis unfolding r using b t old by simp
qed

text \<open>
  Against C4 as stated: an income of \<open>-5\<close> on the account Cash (balance 100) is
  accepted, one transaction is recorded and the balance becomes 95.
\<close>

theorem recordTransaction_negative_amount_accepted:
  "amount negativeIncome = Some (- 5)
   \<and> isl (fst (recordTransaction negativeIncome cashStore)) = False
   \<and> length (transactions (snd (recordTransaction negativeIncome cashStore))) = 1
   \<and> balanceOf cashStore ''Cash'' = Some 100
   \<and> balanceOf (snd (recordTransaction negativeIncome cashStore)) ''Cash'' = Some 95"
  by (simp add: negativeIncome_def cashStore_def signedInStore_def recordTransaction_def
        requireText_def requireNumber_def applyBalances_def updateAccountBalance_def
        updateDocument_def getDocument_def addDocument_def auditLog_def balanceOf_def
        Let_def orEmpty_def)

text \<open>An income of amount \<open>0\<close> is rejected and the store stays as it was.\<close>

theorem recordTransaction_validation_witness:
  "fst (recordTransaction zeroIncome cashStore) = Inl (MissingRequiredField ''amount'')
   \<and> snd (recordTransaction zeroIncome cashStore) = cashStore"
proof -
  have "amount zeroIncome = Some 0" by (simp add: zeroIncome_def)
  from recordTransaction_validation[of zeroIncome cashStore] this
  obtain e where r: "recordTransaction zeroIncome cashStore = (Inl e, cashStore)" by blast
  moreover have "fst (recordTransaction zeroIncome cashStore) = Inl (MissingRequiredField ''amount'')"
    by (simp add: zeroIncome_def negativeIncome_def recordTransaction_def requireText_def
          requireNumber_def)
  ultimately show ?thesis by simp
qed

section \<open>Properties of the stock adjuster\<close>

lemma updateStock_cases:
  "(\<exists>e. updateStock pid q reason reference s = (Inl e, s)) \<or>
   (\<exists>u p. masterUser s = Some u \<and> getDocument (products s) pid = Some p \<and> 0 \<le> stock p + q \<and>
      updateStock pid q reason reference s =
        (Inr (stock p + q),
         s\<lparr>products := AList.update pid
                (p\<lparr>stock := stock p + q, lowStock := (stock p + q \<le> reorderLevel p)\<rparr>) (products s),
            inventory_logs := inventory_logs s @
                [\<lparr>userId = u, content =
                    \<lparr>il_productId = pid, il_productName = productName p,
                     il_quantityChange = q, il_previousStock = stock p,
                     il_newStock = stock p + q, il_reason = reason,
                     il_reference = reference\<rparr>\<rparr>]\<rparr>))"
  by (cases "masterUser s"; cases "getDocument (products s) pid")
     (simp_all add: updateStock_def updateDocument_def addDocument_def getDocument_def Let_def)

lemma updateStock_insufficient:
  assumes "stockOf s pid = Some k" and "k + q < 0"
  shows "updateStock pid q reason reference s = (Inl InsufficientStock, s)"
  using assms by (auto simp: stockOf_def updateStock_def Let_def)

lemma updateStock_succeeds:
  assumes "masterUser s = Some u" and "stockOf s pid = Some k" and "0 \<le> k + q"
  shows "fst (updateStock pid q reason reference s) = Inr (k + q)"
  using assms
  by (auto simp: stockOf_def updateStock_def updateDocument_def addDocument_def
        getDocument_def Let_def)

lemma stockOf_products_update:
  "stockOf (s\<lparr>products := AList.update a v (products s), inventory_logs := l\<rparr>) x =
     (if x = a then Some (stock v) else stockOf s x)"
  by (simp add: stockOf_def getDocument_def update_conv')

lemma updateStock_stockOf:
  "stockOf (snd (updateStock p q reason reference s)) pid =
     (if p = pid \<and> \<not> isl (fst (updateStock p q reason reference s))
      then map_option (\<lambda>k. k + q) (stockOf s pid) else stockOf s pid)"
proof -
  from updateStock_cases[of p q reason reference s]
  show ?thesis
  proof (elim disjE exE conjE)
    fix e assume "updateStock p q reason reference s = (Inl e, s)"
    then show ?thesis by simp
  next
    fix u pr
    assume g: "getDocument (products s) p = Some pr"
      and r: "updateStock p q reason reference s =
        (Inr (stock pr + q),
         s\<lparr>products := AList.update p
                (pr\<lparr>stock := stock pr + q, lowStock := (stock pr + q \<le> reorderLevel pr)\<rparr>) (products s),
            inventory_logs := inventory_logs s @
                [\<lparr>userId = u, content =
                    \<lparr>il_productId = p, il_productName = productName pr,
                     il_quantityChange = q, il_previousStock = stock pr,
                     il_newStock = stock pr + q, il_reason = reason,
                     il_reference = reference\<rparr>\<rparr>]\<rparr>)"
    have "stockOf s p = Some (stock pr)" using g by (simp add: stockOf_def)
    then show ?thesis unfolding r
      by (auto simp: stockOf_products_update)
  qed
qed

lemma updateStock_nonneg:
  assumes "stockOf s pid = Some k" and "0 \<le> k"
  shows "\<exists>k'. stockOf (snd (updateStock p q reason reference s)) pid = Some k' \<and> 0 \<le> k'"
proof -
  from updateStock_cases[of p q reason reference s]
  show ?thesis
  proof (elim disjE exE conjE)
    fix e assume "updateStock p q reason reference s = (Inl e, s)"
    then show ?thesis using assms by simp
  next
    fix u pr
    assume g: "getDocument (products s) p = Some pr" and n: "0 \<le> stock pr + q"
      and r: "updateStock p q reason reference s =
        (Inr (stock pr + q),
         s\<lparr>products := AList.update p
                (pr\<lparr>stock := stock pr + q, lowStock := (stock pr + q \<le> reorderLevel pr)\<rparr>) (products s),
            inventory_logs := inventory_logs s @
                [\<lparr>userId = u, content =
                    \<lparr>il_productId = p, il_productName = productName pr,
                     il_quantityChange = q, il_previousStock = stock pr,
                     il_newStock = stock pr + q, il_reason = reason,
                     il_reference = reference\<rparr>\<rparr>]\<rparr>)"
    show ?thesis unfolding r using g n assms
      by (simp add: stockOf_products_update)
  qed
qed

lemma updateStockCalls_sum:
  "stockOf s pid = Some S \<Longrightarrow>
   stockOf (snd (updateStockCalls cs s)) pid =
     Some (S + appliedChanges pid cs (fst (updateStockCalls cs s)))"
proof (induction cs arbitrary: s S)
  case Nil
  then show ?case by simp
next
  case (Cons c cs)
  obtain p q reason reference where c: "c = (p, q, reason, reference)" by (cases c) auto
  obtain r s1 where u: "updateStock p q reason reference s = (r, s1)" by fastforce
  obtain rs s2 where v: "updateStockCalls cs s1 = (rs, s2)" by fastforce
  let ?d = "if p = pid \<and> \<not> isl r then q else 0"
  have "stockOf s1 pid = Some (S + ?d)"
    using updateStock_stockOf[of p q reason reference s pid] u Cons.prems by simp
  from Cons.IH[OF this] have "stockOf s2 pid = Some (S + ?d + appliedChanges pid cs rs)"
    using v by simp
  then show ?case using c u v by simp
qed

lemma updateStockCalls_nonneg:
  "stockOf s pid = Some S \<Longrightarrow> 0 \<le> S \<Longrightarrow>
   \<exists>k. stockOf (snd (updateStockCalls cs s)) pid = Some k \<and> 0 \<le> k"
proof (induction cs arbitrary: s S)
  case Nil
  then show ?case by simp
next
  case (Cons c cs)
  obtain p q reason reference where c: "c = (p, q, reason, reference)" by (cases c) auto
  obtain r s1 where u: "updateStock p q reason reference s = (r, s1)" by fastforce
  obtain rs s2 where v: "updateStockCalls cs s1 = (rs, s2)" by fastforce
  from updateStock_nonneg[OF Cons.prems, of p q reason reference] u
  obtain k' where "stockOf s1 pid = Some k'" "0 \<le> k'" by auto
  from Cons.IH[OF this] show ?case using c u v by simp
qed

text \<open>
  Claim C2. For every sequence of \<^verbatim>\<open>updateStock\<close> calls, the final stock of a
  product with initial stock \<open>S\<close> is \<open>S\<close> plus the sum of the quantity changes of
  the successful calls on it. A call for which stock plus quantity change is negative
  fails with the insufficient-stock error and leaves the store as it was. Starting from
  a stock that is not negative, the stock is not negative after any prefix of the
  sequence.
\<close>

theorem updateStock_sequence:
  assumes "stockOf s pid = Some S"
  shows "stockOf (snd (updateStockCalls cs s)) pid =
           Some (S + appliedChanges pid cs (fst (updateStockCalls cs s)))
       \<and> (\<forall>q reason reference. S + q < 0 \<longrightarrow>
             updateStock pid q reason reference s = (Inl InsufficientStock, s))
       \<and> (0 \<le> S \<longrightarrow>
             (\<forall>n \<le> length cs. \<exists>k. stockOf (snd (updateStockCalls (take n cs) s)) pid = Some k
                                   \<and> 0 \<le> k))"
  using updateStockCalls_sum[OF assms] updateStock_insufficient[OF assms]
    updateStockCalls_nonneg[OF assms]
  by blast

lemma stockStore_facts:
  "stockOf stockStore ''P1'' = Some 10"
  "updateStock ''P1'' (- 12) ''sale'' None stockStore = (Inl InsufficientStock, stockStore)"
  by (simp_all add: stockStore_def widget_def signedInStore_def stockOf_def getDocument_def
        updateStock_def Let_def)

lemma stockCalls_results:
  "fst (updateStockCalls stockCalls stockStore) = [Inl InsufficientStock, Inr 7, Inr 12]"
  by (simp add: stockCalls_def stockStore_def widget_def signedInStore_def
        updateStock_def updateDocument_def addDocument_def getDocument_def Let_def)

text \<open>
  The scenario of C2: with stock 10, \<^verbatim>\<open>updateStock(id, -12, 'sale')\<close> fails and the
  stock stays 10; the two calls that follow succeed and the stock ends at 12.
\<close>

theorem updateStock_sequence_witness:
  "fst (updateStockCalls stockCalls stockStore) = [Inl InsufficientStock, Inr 7, Inr 12]
   \<and> stockOf (snd (updateStockCalls stockCalls stockStore)) ''P1'' = Some 12
   \<and> updateStock ''P1'' (- 12) ''sale'' None stockStore = (Inl InsufficientStock, stockStore)"
proof -
  have a: "appliedChanges ''P1'' stockCalls [Inl InsufficientStock, Inr 7, Inr 12] = 2"
    by (simp add: stockCalls_def)
  from updateStock_sequence[OF stockStore_facts(1), of stockCalls]
  show ?thesis unfolding stockCalls_results a by simp
qed

text \<open>
  Claim C3. Every successful call of \<^verbatim>\<open>updateStock\<close> appends exactly one
  inventory log entry, whose previous stock is the stock read before the update and
  whose new stock minus previous stock is the quantity change; it writes the new stock
  together with the flag \<open>lowStock = (newStock \<le> reorderLevel)\<close>, and it returns the
  new stock.
\<close>

theorem updateStock_log:
  assumes "updateStock pid q reason reference s = (Inr n, s')"
  shows "\<exists>p entry. getDocument (products s) pid = Some p
           \<and> n = stock p + q
           \<and> inventory_logs s' = inventory_logs s @ [entry]
           \<and> il_productId (content entry) = pid
           \<and> il_quantityChange (content entry) = q
           \<and> il_previousStock (content entry) = stock p
           \<and> il_newStock (content entry) = n
           \<and> il_newStock (content entry) - il_previousStock (content entry) = q
           \<and> getDocument (products s') pid =
               Some (p\<lparr>stock := n, lowStock := (n \<le> reorderLevel p)\<rparr>)"
proof -
  from updateStock_cases[of pid q reason reference s] assms
  obtain u p where g: "getDocument (products s) pid = Some p"
    and r: "(Inr n, s') =
        (Inr (stock p + q),
         s\<lparr>products := AList.update pid
                (p\<lparr>stock := stock p + q, lowStock := (stock p + q \<le> reorderLevel p)\<rparr>) (products s),
            inventory_logs := inventory_logs s @
                [\<lparr>userId = u, content =
                    \<lparr>il_productId = pid, il_productName = productName p,
                     il_quantityChange = q, il_previousStock = stock p,
                     il_newStock = stock p + q, il_reason = reason,
                     il_reference = reference\<rparr>\<rparr>]\<rparr>)"
    by auto
  from r have n: "n = stock p + q" and s': "s' = s\<lparr>products := AList.update pid
                (p\<lparr>stock := stock p + q, lowStock := (stock p + q \<le> reorderLevel p)\<rparr>) (products s),
            inventory_logs := inventory_logs s @
                [\<lparr>userId = u, content =
                    \<lparr>il_productId = pid, il_productName = productName p,
                     il_quantityChange = q, il_previousStock = stock p,
                     il_newStock = stock p + q, il_reason = reason,
                     il_reference = reference\<rparr>\<rparr>]\<rparr>"
    by simp_all
  show ?thesis using g unfolding s' n
    by (simp add: getDocument_def update_conv')
qed

lemma stockStore_sale:
  "fst (updateStock ''P1'' (- 6) ''sale'' None stockStore) = Inr 4"
  by (simp add: stockStore_def widget_def signedInStore_def
        updateStock_def updateDocument_def addDocument_def getDocument_def Let_def)

text \<open>
  A sale of 6 from stock 10 with reorder level 5: the log entry records 10 and 4, and
  the product is flagged as low on stock.
\<close>

theorem updateStock_log_witness:
  "fst (updateStock ''P1'' (- 6) ''sale'' None stockStore) = Inr 4
   \<and> map (il_previousStock \<circ> content)
        (inventory_logs (snd (updateStock ''P1'' (- 6) ''sale'' None stockStore))) = [10]
   \<and> map (il_newStock \<circ> content)
        (inventory_logs (snd (updateStock ''P1'' (- 6) ''sale'' None stockStore))) = [4]
   \<and> map_option lowStock
        (getDocument (products (snd (updateStock ''P1'' (- 6) ''sale'' None stockStore))) ''P1'')
       = Some True"
proof -
  obtain s' where r: "updateStock ''P1'' (- 6) ''sale'' None stockStore = (Inr 4, s')"
    using stockStore_sale by (cases "updateStock ''P1'' (- 6) ''sale'' None stockStore") simp
  have old: "getDocument (products stockStore) ''P1'' = Some widget"
    "inventory_logs stockStore = []"
    by (simp_all add: stockStore_def signedInStore_def getDocument_def)
  from updateStock_log[OF r] old
  obtain entry where "inventory_logs s' = [entry]"
    "il_previousStock (content entry) = stock widget" "il_newStock (content entry) = 4"
    "getDocument (products s') ''P1'' =
       Some (widget\<lparr>stock := 4, lowStock := (4 \<le> reorderLevel widget)\<rparr>)"
    by auto
  then show ?thesis unfolding r by (simp add: widget_def)
qed

section \<open>Properties of the customer credit adjuster\<close>

lemma adjustedBalance_clamped:
  "ty = ''decrease'' \<or> ty = ''payment'' \<Longrightarrow> 0 \<le> adjustedBalance old amt ty"
  by (auto simp: adjustedBalance_def)

lemma adjustedBalance_increase:
  "adjustedBalance old amt ''increase'' = old + amt"
  by (simp add: adjustedBalance_def)

lemma updateCustomerCredit_cases:
  assumes "getDocument (customers s) cid = Some c"
    and "nb = adjustedBalance (outstandingBalance c) amt ty"
  shows "(0 < creditLimit c \<and> creditLimit c < nb \<and>
            updateCustomerCredit cid amt ty s = (Inl CreditLimitExceeded, s))
       \<or> (\<not> (0 < creditLimit c \<and> creditLimit c < nb) \<and> masterUser s = None \<and>
            updateCustomerCredit cid amt ty s = (Inl UserNotAuthenticated, s))
       \<or> (\<not> (0 < creditLimit c \<and> creditLimit c < nb) \<and> masterUser s \<noteq> None \<and>
            defaultUser s = None \<and>
            updateCustomerCredit cid amt ty s =
              (Inl TypeError,
               s\<lparr>customers := AList.update cid
                     (c\<lparr>outstandingBalance := nb, creditUsed := nb\<rparr>) (customers s)\<rparr>))
       \<or> (\<exists>u. \<not> (0 < creditLimit c \<and> creditLimit c < nb) \<and> masterUser s = Some u \<and>
            defaultUser s \<noteq> None \<and>
            updateCustomerCredit cid amt ty s =
              (Inr nb,
               s\<lparr>customers := AList.update cid
                     (c\<lparr>outstandingBalance := nb, creditUsed := nb\<rparr>) (customers s),
                 credit_transactions := credit_transactions s @
                     [\<lparr>userId = u, content =
                         \<lparr>ct_customerId = cid, ct_amount = amt, ct_type = ty,
                          ct_previousBalance = outstandingBalance c,
                          ct_newBalance = nb\<rparr>\<rparr>]\<rparr>))"
  using assms
  by (cases "masterUser s"; cases "defaultUser s")
     (auto simp: updateCustomerCredit_def updateDocument_def addDocument_def
        getDocument_def Let_def)

text \<open>
  Claim C5, as the code has it. Whatever its outcome, \<^verbatim>\<open>updateCustomerCredit\<close> on an
  existing customer leaves the customer as it was or persists the adjusted balance.
  A persisted balance is never above a positive credit limit: such a call fails with
  the credit-limit error and leaves the store as it was. For decrease and payment a
  persisted balance is never below \<open>0\<close>; for increase it is the previous balance plus
  the amount, which is not below \<open>0\<close> when neither of the two is. With credit limit
  \<open>0\<close> every increase by a signed-in user succeeds. A successful call appends one
  credit transaction that carries the previous and the new balance, and returns the
  new balance.
\<close>

theorem updateCustomerCredit_bounds:
  assumes "getDocument (customers s) cid = Some c"
    and "nb = adjustedBalance (outstandingBalance c) amt ty"
    and "updateCustomerCredit cid amt ty s = (r, s')"
  shows "(\<exists>c'. getDocument (customers s') cid = Some c' \<and> creditLimit c' = creditLimit c
            \<and> (c' = c \<or> outstandingBalance c' = nb)
            \<and> (outstandingBalance c' \<noteq> outstandingBalance c \<longrightarrow>
                   \<not> (0 < creditLimit c \<and> creditLimit c < outstandingBalance c')
                   \<and> (ty = ''decrease'' \<or> ty = ''payment'' \<longrightarrow> 0 \<le> outstandingBalance c')
                   \<and> (ty = ''increase'' \<and> 0 \<le> outstandingBalance c \<and> 0 \<le> amt
                        \<longrightarrow> 0 \<le> outstandingBalance c')))
       \<and> (0 < creditLimit c \<and> creditLimit c < nb \<longrightarrow> r = Inl CreditLimitExceeded \<and> s' = s)
       \<and> (creditLimit c = 0 \<and> ty = ''increase'' \<and> masterUser s \<noteq> None \<and> defaultUser s \<noteq> None
            \<longrightarrow> r = Inr (outstandingBalance c + amt))
       \<and> (\<not> isl r \<longrightarrow>
            r = Inr nb
            \<and> (\<exists>entry. credit_transactions s' = credit_transactions s @ [entry]
                  \<and> ct_customerId (content entry) = cid
                  \<and> ct_previousBalance (content entry) = outstandingBalance c
                  \<and> ct_newBalance (content entry) = nb))"
proof -
  let ?upd = "AList.update cid (c\<lparr>outstandingBalance := nb, creditUsed := nb\<rparr>) (customers s)"
  have look: "getDocument ?upd cid = Some (c\<lparr>outstandingBalance := nb, creditUsed := nb\<rparr>)"
    by (simp add: getDocument_def update_conv')
  have clamp: "ty = ''decrease'' \<or> ty = ''payment'' \<Longrightarrow> 0 \<le> nb"
    unfolding assms(2) by (rule adjustedBalance_clamped)
  have inc: "ty = ''increase'' \<Longrightarrow> nb = outstandingBalance c + amt"
    unfolding assms(2) by (simp add: adjustedBalance_increase)
  from updateCustomerCredit_cases[OF assms(1,2)] assms(3)
  consider (over) "0 < creditLimit c" "creditLimit c < nb" "r = Inl CreditLimitExceeded" "s' = s"
    | (anon) "\<not> (0 < creditLimit c \<and> creditLimit c < nb)" "masterUser s = None"
        "r = Inl UserNotAuthenticated" "s' = s"
    | (half) "\<not> (0 < creditLimit c \<and> creditLimit c < nb)" "masterUser s \<noteq> None"
        "defaultUser s = None" "r = Inl TypeError" "s' = s\<lparr>customers := ?upd\<rparr>"
    | (full) u where "\<not> (0 < creditLimit c \<and> creditLimit c < nb)" "masterUser s = Some u"
        "defaultUser s \<noteq> None" "r = Inr nb"
        "s' = s\<lparr>customers := ?upd,
                 credit_transactions := credit_transactions s @
                     [\<lparr>userId = u, content =
                         \<lparr>ct_customerId = cid, ct_amount = amt, ct_type = ty,
                          ct_previousBalance = outstandingBalance c,
                          ct_newBalance = nb\<rparr>\<rparr>]\<rparr>"
    by auto
  then show ?thesis
  proof cases
    case over
    then show ?thesis using assms(1) by simp
  next
    case anon
    then show ?thesis using assms(1) by auto
  next
    case half
    have "customers s' = ?upd" using half(5) by simp
    then show ?thesis using half(1-4) look clamp inc by auto
  next
    case full
    have "customers s' = ?upd" using full(5) by simp
    moreover have "credit_transactions s' = credit_transactions s @
                     [\<lparr>userId = u, content =
                         \<lparr>ct_customerId = cid, ct_amount = amt, ct_type = ty,
                          ct_previousBalance = outstandingBalance c,
                          ct_newBalance = nb\<rparr>\<rparr>]" using full(5) by simp
    ultimately show ?thesis using full(1-4) look clamp inc by auto
  qed
qed

text \<open>
  Claim C10. After every successful call of \<^verbatim>\<open>updateCustomerCredit\<close> the persisted
  \<open>creditUsed\<close> equals the persisted \<open>outstandingBalance\<close>, and both are the
  balance returned, whatever the adjustment type.
\<close>

theorem updateCustomerCredit_synced:
  assumes "updateCustomerCredit cid amt ty s = (Inr n, s')"
  shows "\<exists>c'. getDocument (customers s') cid = Some c'
           \<and> creditUsed c' = outstandingBalance c' \<and> outstandingBalance c' = n"
proof (cases "getDocument (customers s) cid")
  case None
  then show ?thesis using assms by (simp add: updateCustomerCredit_def)
next
  case (Some c)
  let ?nb = "adjustedBalance (outstandingBalance c) amt ty"
  from updateCustomerCredit_cases[OF Some refl, of amt ty] assms
  obtain u where "n = ?nb"
    "s' = s\<lparr>customers := AList.update cid
                     (c\<lparr>outstandingBalance := ?nb, creditUsed := ?nb\<rparr>) (customers s),
                 credit_transactions := credit_transactions s @
                     [\<lparr>userId = u, content =
                         \<lparr>ct_customerId = cid, ct_amount = amt, ct_type = ty,
                          ct_previousBalance = outstandingBalance c,
                          ct_newBalance = ?nb\<rparr>\<rparr>]\<rparr>"
    by auto
  then show ?thesis by (simp add: getDocument_def update_conv')
qed

lemma creditStore_lookup:
  "getDocument (customers creditStore) ''C1'' = Some regular"
  "getDocument (customers creditStore) ''C2'' = Some unlimited"
  by (simp_all add: creditStore_def getDocument_def)

text \<open>
  An increase by 20 of a balance of 90 under a credit limit of 100 fails and persists
  nothing.
\<close>

theorem updateCustomerCredit_bounds_witness:
  "updateCustomerCredit ''C1'' 20 ''increase'' creditStore = (Inl CreditLimitExceeded, creditStore)"
proof -
  have nb: "(110::rat) = adjustedBalance (outstandingBalance regular) 20 ''increase''"
    by (simp add: adjustedBalance_def regular_def)
  have lim: "0 < creditLimit regular \<and> creditLimit regular < 110"
    by (simp add: regular_def)
  from updateCustomerCredit_bounds[OF creditStore_lookup(1) nb surjective_pairing] lim
  have "fst (updateCustomerCredit ''C1'' 20 ''increase'' creditStore) = Inl CreditLimitExceeded"
    and "snd (updateCustomerCredit ''C1'' 20 ''increase'' creditStore) = creditStore"
    by blast+
  then show ?thesis by (simp add: prod_eq_iff)
qed

text \<open>
  Against C5 as stated: an increase by \<open>-5\<close> of a customer with balance \<open>0\<close> and no
  credit limit succeeds and persists the balance \<open>-5\<close>.
\<close>

theorem updateCustomerCredit_negative_increase:
  "fst (updateCustomerCredit ''C2'' (- 5) ''increase'' creditStore) = Inr (- 5)
   \<and> map_option outstandingBalance
        (getDocument (customers (snd (updateCustomerCredit ''C2'' (- 5) ''increase'' creditStore)))
           ''C2'') = Some (- 5)"
  by (simp add: creditStore_def signedInStore_def regular_def unlimited_def
        updateCustomerCredit_def adjustedBalance_def updateDocument_def addDocument_def
        getDocument_def Let_def)

lemma creditStore_payment:
  "fst (updateCustomerCredit ''C1'' 30 ''payment'' creditStore) = Inr 60"
  by (simp add: creditStore_def signedInStore_def regular_def unlimited_def
        updateCustomerCredit_def adjustedBalance_def updateDocument_def addDocument_def
        getDocument_def Let_def)

text \<open>A payment of 30 on a balance of 90 leaves both fields at 60.\<close>

theorem updateCustomerCredit_synced_witness:
  "fst (updateCustomerCredit ''C1'' 30 ''payment'' creditStore) = Inr 60
   \<and> map_option outstandingBalance
        (getDocument (customers (snd (updateCustomerCredit ''C1'' 30 ''payment'' creditStore)))
           ''C1'') = Some 60
   \<and> map_option creditUsed
        (getDocument (customers (snd (updateCustomerCredit ''C1'' 30 ''payment'' creditStore)))
           ''C1'') = Some 60"
proof -
  obtain s' where r: "updateCustomerCredit ''C1'' 30 ''payment'' creditStore = (Inr 60, s')"
    using creditStore_payment
    by (cases "updateCustomerCredit ''C1'' 30 ''payment'' creditStore") simp
  from updateCustomerCredit_synced[OF r]
  show ?thesis unfolding r by auto
qed

section \<open>Properties of the profit-and-loss report\<close>

text \<open>
  What the report computes: the cost of goods is summed inside the income branch only.
\<close>

lemma foldl_pnlStep:
  "revenue (foldl pnlStep p ts) = revenue p + sumWhere (\<lambda>t. t_type t = ''income'') ts
   \<and> cogs (foldl pnlStep p ts) =
       cogs p + sumWhere (\<lambda>t. t_type t = ''income'' \<and> t_category t = ''Cost of Goods'') ts
   \<and> operatingExpenses (foldl pnlStep p ts) =
       operatingExpenses p + sumWhere (\<lambda>t. t_type t = ''expense'') ts"
proof (induction ts arbitrary: p)
  case Nil
  then show ?case by (simp add: sumWhere_def)
next
  case (Cons t ts)
  have "revenue (pnlStep p t) = revenue p + sumWhere (\<lambda>t. t_type t = ''income'') [t]"
    "cogs (pnlStep p t) =
       cogs p + sumWhere (\<lambda>t. t_type t = ''income'' \<and> t_category t = ''Cost of Goods'') [t]"
    "operatingExpenses (pnlStep p t) =
       operatingExpenses p + sumWhere (\<lambda>t. t_type t = ''expense'') [t]"
    by (simp_all add: pnlStep_def sumWhere_def Let_def)
  moreover have "sumWhere P (t # ts) = sumWhere P [t] + sumWhere P ts" for P
    by (simp add: sumWhere_def)
  ultimately show ?case using Cons.IH[of "pnlStep p t"] by simp
qed

lemma getProfitAndLoss_sums:
  "grossProfit (getProfitAndLoss ts) =
     sumWhere (\<lambda>t. t_type t = ''income'') ts
     - sumWhere (\<lambda>t. t_type t = ''income'' \<and> t_category t = ''Cost of Goods'') ts"
  "netProfit (getProfitAndLoss ts) =
     grossProfit (getProfitAndLoss ts) - sumWhere (\<lambda>t. t_type t = ''expense'') ts"
  by (simp_all add: getProfitAndLoss_def Let_def foldl_pnlStep)

text \<open>
  Claim C6 says that gross profit is the sum of the income amounts minus the sum of
  the amounts of the transactions of category Cost of Goods, and that net profit is
  that gross profit minus the sum of the expense amounts. Cost of Goods is one of the
  expense categories of \<^verbatim>\<open>FinanceManager\<close>, yet the report looks for it among income
  transactions only. On the single expense of 5 in category Cost of Goods the report
  has cost of goods 0, gross profit 0 and net profit \<open>-5\<close>, where the claim gives a
  gross profit of \<open>-5\<close>.
\<close>

theorem getProfitAndLoss_cogs_expense:
  "sumWhere (\<lambda>t. t_type t = ''income'') [cogsPurchase] = 0
   \<and> sumWhere (\<lambda>t. t_category t = ''Cost of Goods'') [cogsPurchase] = 5
   \<and> sumWhere (\<lambda>t. t_type t = ''expense'') [cogsPurchase] = 5
   \<and> cogs (getProfitAndLoss [cogsPurchase]) = 0
   \<and> grossProfit (getProfitAndLoss [cogsPurchase]) = 0
   \<and> netProfit (getProfitAndLoss [cogsPurchase]) = - 5"
  by (simp add: getProfitAndLoss_def pnlStep_def sumWhere_def cogsPurchase_def Let_def)

section \<open>Properties of the sale summary\<close>

lemma toFixed2_hundredths: "toFixed2 (of_int n / 100) = of_int n / 100"
proof (cases "n < 0")
  case True
  then have "(of_int n / 100 :: rat) < 0" by simp
  moreover have "- (of_int n / 100 :: rat) * 100 = of_int (- n)" by simp
  ultimately show ?thesis
    by (simp only: toFixed2_def if_True round_of_int)
next
  case False
  then have "\<not> (of_int n / 100 :: rat) < 0" by simp
  moreover have "(of_int n / 100 :: rat) * 100 = of_int n" by simp
  ultimately show ?thesis
    by (simp only: toFixed2_def if_False round_of_int)
qed

lemma exclusiveTax_20_16:
  "exclusiveTax 20 16 = \<lparr>netAmount = 20, taxAmount = 16 / 5, grossAmount = 116 / 5\<rparr>"
proof -
  have a: "toFixed2 20 = 20" using toFixed2_hundredths[of 2000] by simp
  have b: "toFixed2 (16 / 5) = 16 / 5" using toFixed2_hundredths[of 320] by simp
  have c: "toFixed2 (116 / 5) = 116 / 5" using toFixed2_hundredths[of 2320] by simp
  show ?thesis by (simp add: exclusiveTax_def Let_def a b c)
qed

text \<open>
  A line that \<^verbatim>\<open>addToCart\<close> creates carries the exclusive tax of its total, rounded
  to hundredths. A line that is already in the cart gets a new quantity and a new
  total, and keeps the tax it had.
\<close>

lemma exclusiveTax_taxAmount:
  "taxAmount (exclusiveTax amt rate) = toFixed2 (amt * (rate / 100))"
  by (simp add: exclusiveTax_def Let_def)

lemma addToCart_new_line:
  assumes "getDocument (products s) pid = Some pr" and "q \<le> stock pr"
    and "find (\<lambda>i. ci_productId i = pid) (cart p) = None"
  shows "\<exists>line. addToCart pid q p s = (Inr (cart p @ [line]), p\<lparr>cart := cart p @ [line]\<rparr>)
           \<and> ci_price line = price pr \<and> ci_quantity line = q
           \<and> ci_total line = price pr * of_int q
           \<and> ci_taxAmount line = toFixed2 (ci_total line * (taxRate p / 100))"
  using assms by (simp add: addToCart_def Let_def exclusiveTax_taxAmount)

lemma addToCart_existing_line:
  assumes "getDocument (products s) pid = Some pr" and "q \<le> stock pr"
    and "cart p = line # rest" and "ci_productId line = pid"
  shows "addToCart pid q p s =
           (Inr (line\<lparr>ci_quantity := ci_quantity line + q,
                       ci_total := of_int (ci_quantity line + q) * ci_price line\<rparr> # rest),
            p\<lparr>cart := line\<lparr>ci_quantity := ci_quantity line + q,
                     ci_total := of_int (ci_quantity line + q) * ci_price line\<rparr> # rest\<rparr>)"
  using assms by (simp add: addToCart_def Let_def)

text \<open>
  When the two units of a product of price 10 are added to an empty cart in one call,
  at tax rate 16, the summary of the cart has subtotal 20, tax 3.20 and total 23.20.
\<close>

lemma addToCart_once_summary:
  assumes "getDocument (products s) pid = Some pr" and "price pr = 10" and "2 \<le> stock pr"
    and "cart p = []" and "taxRate p = 16"
  shows "\<exists>line. addToCart pid 2 p s = (Inr [line], p\<lparr>cart := [line]\<rparr>)
           \<and> ci_price line = 10 \<and> ci_quantity line = 2 \<and> ci_total line = 20
           \<and> calculateTax (ci_total line) (taxRate p) False
               = Some (exclusiveTax (ci_total line) (taxRate p))
           \<and> ci_taxAmount line = ci_total line * (taxRate p / 100)
           \<and> updateCartSummary [line] =
               \<lparr>subtotal = 20, tax = 16 / 5, discount = 0, total = 116 / 5, itemCount = 2\<rparr>"
  using assms
  by (simp add: addToCart_def Let_def calculateTax_def exclusiveTax_20_16 updateCartSummary_def)

text \<open>The same on the product Widget (price 10, stock 10).\<close>

lemma addToCart_once_summary_widget:
  "subtotal (updateCartSummary (cart (snd (addToCart ''P1'' 2 emptyPos stockStore)))) = 20
   \<and> tax (updateCartSummary (cart (snd (addToCart ''P1'' 2 emptyPos stockStore)))) = 16 / 5
   \<and> total (updateCartSummary (cart (snd (addToCart ''P1'' 2 emptyPos stockStore)))) = 116 / 5"
proof -
  have h: "getDocument (products stockStore) ''P1'' = Some widget" "price widget = 10"
    "2 \<le> stock widget" "cart emptyPos = []" "taxRate emptyPos = 16"
    by (simp_all add: stockStore_def widget_def emptyPos_def getDocument_def)
  from addToCart_once_summary[OF h]
  obtain line where "addToCart ''P1'' 2 emptyPos stockStore = (Inr [line], emptyPos\<lparr>cart := [line]\<rparr>)"
    and "updateCartSummary [line] =
               \<lparr>subtotal = 20, tax = 16 / 5, discount = 0, total = 116 / 5, itemCount = 2\<rparr>"
    by blast
  then show ?thesis by simp
qed

text \<open>
  Claim C8 says that the summary of a cart with the single line \<open>{price: 10, qty: 2}\<close>
  at tax rate 16, exclusive, has subtotal 20, tax 3.20 and total 23.20, the tax of the
  line being \<open>amount * rate / 100\<close>. \<^verbatim>\<open>updateQuantity\<close> and \<^verbatim>\<open>removeFromCart\<close>
  compute the tax of a line again when its total changes; the branch of
  \<^verbatim>\<open>addToCart\<close> for a product that is already in the cart does not. Adding one unit
  of the product Widget (price 10) twice to an empty cart gives the single line of
  price 10, quantity 2 and total 20 with the tax 1.60 of the first unit: the summary
  has subtotal 20, tax 1.60 and total 21.60, where the exclusive tax of 20 is 3.20.
\<close>

theorem addToCart_twice_stale_tax:
  "cart (snd (addToCart ''P1'' 1 (snd (addToCart ''P1'' 1 emptyPos stockStore)) stockStore)) =
     [\<lparr>ci_productId = ''P1'', ci_name = ''Widget'', ci_sku = ''W-1'', ci_price = 10,
       ci_cost = 6, ci_quantity = 2, ci_total = 20, ci_taxAmount = 8 / 5, ci_stock = 10,
       ci_unit = ''pcs''\<rparr>]
   \<and> updateCartSummary
        (cart (snd (addToCart ''P1'' 1 (snd (addToCart ''P1'' 1 emptyPos stockStore)) stockStore))) =
       \<lparr>subtotal = 20, tax = 8 / 5, discount = 0, total = 108 / 5, itemCount = 2\<rparr>
   \<and> taxAmount (exclusiveTax 20 16) = 16 / 5"
proof -
  have t: "toFixed2 (8 / 5) = 8 / 5" using toFixed2_hundredths[of 160] by simp
  have one: "addToCart ''P1'' 1 emptyPos stockStore =
     (Inr [\<lparr>ci_productId = ''P1'', ci_name = ''Widget'', ci_sku = ''W-1'', ci_price = 10,
            ci_cost = 6, ci_quantity = 1, ci_total = 10, ci_taxAmount = 8 / 5, ci_stock = 10,
            ci_unit = ''pcs''\<rparr>],
      emptyPos\<lparr>cart := [\<lparr>ci_productId = ''P1'', ci_name = ''Widget'', ci_sku = ''W-1'',
            ci_price = 10, ci_cost = 6, ci_quantity = 1, ci_total = 10, ci_taxAmount = 8 / 5,
            ci_stock = 10, ci_unit = ''pcs''\<rparr>]\<rparr>)"
    by (simp add: addToCart_def Let_def emptyPos_def stockStore_def widget_def getDocument_def
          exclusiveTax_def t)
  have two: "cart (snd (addToCart ''P1'' 1 (snd (addToCart ''P1'' 1 emptyPos stockStore)) stockStore)) =
     [\<lparr>ci_productId = ''P1'', ci_name = ''Widget'', ci_sku = ''W-1'', ci_price = 10,
       ci_cost = 6, ci_quantity = 2, ci_total = 20, ci_taxAmount = 8 / 5, ci_stock = 10,
       ci_unit = ''pcs''\<rparr>]"
    unfolding one
    by (simp add: addToCart_def Let_def stockStore_def widget_def getDocument_def)
  show ?thesis unfolding two
    by (simp add: updateCartSummary_def exclusiveTax_20_16)
qed

section \<open>Properties of the checkout\<close>

text \<open>
  Claim C7. When checkout is invoked on a cart that is not empty, with payment method
  credit and an attached customer that the store has, the validation passes when
  \<open>creditLimit - creditUsed\<close> is at least the total of the cart; otherwise the
  checkout fails with the credit-limit error and leaves the cart and the store,
  balances included, as they were.
\<close>

theorem processCheckout_credit_check:
  assumes "cart p \<noteq> []" and "pd_method pd = ''Credit''"
    and "currentCustomer p = Some c"
    and "getDocument (customers s) (cr_id c) = Some cust"
  shows "(total (updateCartSummary (cart p)) \<le> creditLimit cust - creditUsed cust \<longrightarrow>
            validatePayment pd p (updateCartSummary (cart p)) s = Inr ())
       \<and> (\<not> total (updateCartSummary (cart p)) \<le> creditLimit cust - creditUsed cust \<longrightarrow>
            validatePayment pd p (updateCartSummary (cart p)) s = Inl CreditLimitExceeded
            \<and> processCheckout financeRecord pd p s = (Inl CreditLimitExceeded, p, s))"
  using assms by (simp add: processCheckout_def validatePayment_def Let_def)

text \<open>
  The scenario of C7: credit limit 100, credit used 90, a credit sale of 20.
\<close>

theorem processCheckout_credit_check_witness:
  "total (updateCartSummary (cart creditPos)) = 20
   \<and> map_option creditLimit (getDocument (customers creditStore) ''C1'') = Some 100
   \<and> map_option creditUsed (getDocument (customers creditStore) ''C1'') = Some 90
   \<and> processCheckout notAFunction creditPayment creditPos creditStore
       = (Inl CreditLimitExceeded, creditPos, creditStore)"
proof -
  have h: "cart creditPos \<noteq> []" "pd_method creditPayment = ''Credit''"
    "currentCustomer creditPos = Some \<lparr>cr_id = ''C1'', cr_name = ''Regular''\<rparr>"
    "getDocument (customers creditStore) (cr_id \<lparr>cr_id = ''C1'', cr_name = ''Regular''\<rparr>)
       = Some regular"
    by (simp_all add: creditPos_def creditPayment_def creditStore_def getDocument_def)
  have t: "total (updateCartSummary (cart creditPos)) = 20"
    by (simp add: creditPos_def updateCartSummary_def)
  have c: "creditLimit regular = 100" "creditUsed regular = 90"
    by (simp_all add: regular_def)
  from processCheckout_credit_check[OF h, of notAFunction]
  have "processCheckout notAFunction creditPayment creditPos creditStore
          = (Inl CreditLimitExceeded, creditPos, creditStore)"
    unfolding t c by simp
  then show ?thesis using t c h(4) by simp
qed

end
